theory Spec2Isabelle
  imports
    Complex_Main
    "HOL-Library.Multiset"
    "HOL-Library.Product_Lexorder"
begin

section \<open>Slot prioritization (priority\_manager.py)\<close>

text \<open>
  \<^verbatim>\<open>AngolaToPortugalVisaType\<close> has the two members NACIONAL and SCHENGEN. The field
  \<^verbatim>\<open>Slot.type\<close> is not checked when a slot is built, so at run time it may hold any other
  value; \<open>UNRECOGNIZED\<close> stands for those values (the text is the value's printed form).
\<close>

datatype visa_type = NACIONAL | SCHENGEN | UNRECOGNIZED string

text \<open>
  The dataclass \<^verbatim>\<open>Slot\<close>. A \<^verbatim>\<open>datetime\<close> is an integer number of microseconds, which is
  the resolution of the Python type, so \<open>\<le>\<close> and \<open><\<close> on \<open>int\<close> are the comparisons of the
  source. The field names carry the prefix \<open>slot_\<close> because \<open>id\<close> is a constant of HOL.
\<close>

record slot =
  slot_id :: string
  slot_date :: int
  slot_type :: visa_type
  available_spots :: int

text \<open>
  The key of \<^verbatim>\<open>apply_prioritization_strategy\<close>:
  \<^verbatim>\<open>(slot.type != NACIONAL, slot.type != SCHENGEN, slot.date)\<close>.
  Python compares tuples lexicographically and \<^verbatim>\<open>False < True\<close>; so do the product order
  of \<open>Product_Lexorder\<close> and the order on \<open>bool\<close>.
\<close>

definition priority_key :: "slot \<Rightarrow> bool \<times> bool \<times> int" where
  "priority_key s = (slot_type s \<noteq> NACIONAL, slot_type s \<noteq> SCHENGEN, slot_date s)"

text \<open>
  \<^verbatim>\<open>sorted(slots, key=...)\<close> is a stable sort. The stable sorted rearrangement of a list is
  unique, so the insertion sort \<open>sort_key\<close> returns the list that Python's sort returns.
\<close>

definition apply_prioritization_strategy :: "slot list \<Rightarrow> slot list" where
  "apply_prioritization_strategy slots = sort_key priority_key slots"

subsection \<open>Validation\<close>

text \<open>
  The list handed to \<^verbatim>\<open>validate_slots\<close> is annotated \<^verbatim>\<open>List[Slot]\<close>, but the loop tests
  \<^verbatim>\<open>isinstance(slot, Slot)\<close> first; \<open>OtherObject\<close> is an element for which the test is false.
\<close>

datatype py_object = SlotObject slot | OtherObject

text \<open>
  \<^verbatim>\<open>validate_slots\<close> reads \<^verbatim>\<open>datetime.now()\<close> anew for every slot that reaches the date
  check, so the clock may advance while the loop runs: \<open>now i\<close> is the reading of the
  clock during iteration \<open>i\<close>. The loop appends to \<^verbatim>\<open>valid_slots\<close>; each \<^verbatim>\<open>continue\<close> is a
  branch that leaves the accumulator as it is.
\<close>

fun validate_loop :: "(nat \<Rightarrow> int) \<Rightarrow> nat \<Rightarrow> slot list \<Rightarrow> py_object list \<Rightarrow> slot list" where
  "validate_loop now i valid_slots [] = valid_slots"
| "validate_loop now i valid_slots (OtherObject # rest) =
     validate_loop now (Suc i) valid_slots rest"
| "validate_loop now i valid_slots (SlotObject s # rest) =
     (if slot_type s \<notin> set [NACIONAL, SCHENGEN] then validate_loop now (Suc i) valid_slots rest
      else if available_spots s \<le> 0 then validate_loop now (Suc i) valid_slots rest
      else if slot_date s < now i then validate_loop now (Suc i) valid_slots rest
      else validate_loop now (Suc i) (valid_slots @ [s]) rest)"

definition validate_slots :: "(nat \<Rightarrow> int) \<Rightarrow> py_object list \<Rightarrow> slot list" where
  "validate_slots now slots = validate_loop now 0 [] slots"

text \<open>
  The specification's words for an invalid slot, checked at clock reading \<open>t\<close>: an
  unrecognized visa type, no available spot, or a date in the past.
\<close>

definition spec_invalid :: "int \<Rightarrow> slot \<Rightarrow> bool" where
  "spec_invalid t s \<longleftrightarrow>
     (slot_type s \<noteq> NACIONAL \<and> slot_type s \<noteq> SCHENGEN) \<or> available_spots s \<le> 0 \<or> slot_date s < t"

fun spec_keeps :: "py_object \<times> nat \<Rightarrow> (nat \<Rightarrow> int) \<Rightarrow> bool" where
  "spec_keeps (SlotObject s, i) now = (\<not> spec_invalid (now i) s)"
| "spec_keeps (OtherObject, i) now = False"

section \<open>Exceptions\<close>

text \<open>
  The exceptions the modelled code raises or catches; all of them are subclasses of
  \<^verbatim>\<open>Exception\<close>. \<open>RetryError\<close> is the dataclass of retry\_manager.py with its fields
  \<^verbatim>\<open>message\<close>, \<^verbatim>\<open>last_error\<close> (\<^verbatim>\<open>None\<close> when no attempt was made) and \<^verbatim>\<open>attempts\<close>.
  Its two messages are \<^verbatim>\<open>'Circuit breaker is open'\<close> and
  \<^verbatim>\<open>f"Max retries reached ({max_retries})"\<close>.
\<close>

datatype retry_message = Circuit_breaker_is_open | Max_retries_reached int

datatype exn =
    TimeoutError
  | ClientError string
  | ServerTimeoutError string
  | AttributeError string
  | OverflowError
  | TypeError string
  | OSError string
  | Exception string
  | RetryError retry_message "exn option" int

text \<open>
  The first handler of \<^verbatim>\<open>retry\<close>:
  \<^verbatim>\<open>except (asyncio.TimeoutError, ClientError, ServerTimeoutError)\<close>.
\<close>

fun is_transient :: "exn \<Rightarrow> bool" where
  "is_transient TimeoutError = True"
| "is_transient (ClientError m) = True"
| "is_transient (ServerTimeoutError m) = True"
| "is_transient e = False"

section \<open>Health monitor (health\_check.py)\<close>

datatype HealthStatus = HEALTHY | DEGRADED | CRITICAL | UNKNOWN

record ComponentHealth =
  status :: HealthStatus
  response_time :: real
  last_checked :: string
  error :: "string option"

text \<open>
  Assignment to a key of a dictionary, \<^verbatim>\<open>d[k] = v\<close>: the entry of an existing key is
  replaced where it stands, a new key is added at the end.
\<close>

fun dict_set :: "'k \<Rightarrow> 'v \<Rightarrow> ('k \<times> 'v) list \<Rightarrow> ('k \<times> 'v) list" where
  "dict_set k v [] = [(k, v)]"
| "dict_set k v ((k', v') # rest) = (if k' = k then (k, v) # rest else (k', v') # dict_set k v rest)"

text \<open>
  The part of a \<^verbatim>\<open>HealthCheck\<close> object that the modelled methods read and write:
  \<^verbatim>\<open>health_status['components']\<close>, a dictionary from the component's name to its
  \<^verbatim>\<open>ComponentHealth\<close>, kept as the list of its items, and \<^verbatim>\<open>error_counts\<close>, a dictionary
  from the component's name to a count. Logging and the Prometheus metrics are left out.
\<close>

record HealthCheck =
  components :: "(string \<times> ComponentHealth) list"
  error_counts :: "string \<rightharpoonup> int"

text \<open>\<^verbatim>\<open>self.error_counts.get(component, 0)\<close>.\<close>

definition error_count_get :: "HealthCheck \<Rightarrow> string \<Rightarrow> int" where
  "error_count_get hc component = (case error_counts hc component of None \<Rightarrow> 0 | Some c \<Rightarrow> c)"

text \<open>
  What the file system does during one call of \<^verbatim>\<open>save_health_history\<close>: the exception of
  \<^verbatim>\<open>os.makedirs\<close> or \<^verbatim>\<open>aiofiles.open\<close> if one of them raises, and the exception of the
  write if it raises.
\<close>

record history_io =
  open_error :: "exn option"
  write_error :: "exn option"

text \<open>
  \<^verbatim>\<open>save_health_history\<close> returns the exception it raises, if any. Between opening the
  file and writing it calls \<^verbatim>\<open>json.dumps\<close> on the history, which holds
  \<^verbatim>\<open>asdict(v)\<close> for every recorded component; the field \<^verbatim>\<open>status\<close> of that dictionary is a
  member of the plain \<^verbatim>\<open>Enum\<close> \<^verbatim>\<open>HealthStatus\<close>, which \<^verbatim>\<open>json.dumps\<close> refuses with a
  \<^verbatim>\<open>TypeError\<close>. The other values of the history are texts and numbers.
\<close>

definition save_health_history :: "history_io \<Rightarrow> HealthCheck \<Rightarrow> exn option" where
  "save_health_history io hc =
     (case open_error io of
        Some e \<Rightarrow> Some e
      | None \<Rightarrow>
          if components hc \<noteq> []
          then Some (TypeError ''Object of type HealthStatus is not JSON serializable'')
          else write_error io)"

text \<open>
  \<^verbatim>\<open>record_error\<close> and \<^verbatim>\<open>record_success\<close> change the count and then save the history; the
  result is the exception raised by the saving, if any, and the health monitor with the
  count changed.
\<close>

definition hc_record_error :: "string \<Rightarrow> history_io \<Rightarrow> HealthCheck \<Rightarrow> exn option \<times> HealthCheck" where
  "hc_record_error component io hc =
     (let hc1 = hc\<lparr>error_counts := (error_counts hc)(component \<mapsto> error_count_get hc component + 1)\<rparr>
      in (save_health_history io hc1, hc1))"

definition hc_record_success :: "string \<Rightarrow> history_io \<Rightarrow> HealthCheck \<Rightarrow> exn option \<times> HealthCheck" where
  "hc_record_success component io hc =
     (let hc1 = hc\<lparr>error_counts := (error_counts hc)(component \<mapsto> 0)\<rparr>
      in (save_health_history io hc1, hc1))"

text \<open>
  \<^verbatim>\<open>handle_component_error(component, error)\<close>; \<open>checked\<close> is the text of
  \<^verbatim>\<open>datetime.now().isoformat()\<close> at the call.
\<close>

definition handle_component_error :: "string \<Rightarrow> string \<Rightarrow> string \<Rightarrow> HealthCheck \<Rightarrow> HealthCheck" where
  "handle_component_error component err checked hc =
     hc\<lparr>error_counts := (error_counts hc)(component \<mapsto> error_count_get hc component + 1),
        components := dict_set component
          \<lparr>status = CRITICAL, response_time = - 1, last_checked = checked, error = Some err\<rparr>
          (components hc)\<rparr>"

text \<open>
  What one probe \<^verbatim>\<open>session.get(url, timeout=...)\<close> does: it answers with a status code
  (after \<open>response_time\<close> seconds), it runs into \<^verbatim>\<open>asyncio.TimeoutError\<close>, or it raises
  another exception, of which \<^verbatim>\<open>str(error)\<close> is kept. Each case carries the text of
  \<^verbatim>\<open>datetime.now().isoformat()\<close> read while the probe is handled.
\<close>

datatype probe = Response int real string | ProbeTimeout string | ProbeException string string

text \<open>The body of the loop of \<^verbatim>\<open>check_components\<close> for one component.\<close>

fun check_component :: "string \<Rightarrow> probe \<Rightarrow> HealthCheck \<Rightarrow> HealthCheck" where
  "check_component component (Response code rt checked) hc =
     (let (st, counts) =
            (if code = 200 then (HEALTHY, (error_counts hc)(component \<mapsto> 0))
             else (DEGRADED, (error_counts hc)(component \<mapsto> error_count_get hc component + 1)))
      in hc\<lparr>error_counts := counts,
            components := dict_set component
              \<lparr>status = st, response_time = rt, last_checked = checked, error = None\<rparr>
              (components hc)\<rparr>)"
| "check_component component (ProbeTimeout checked) hc =
     handle_component_error component ''Timeout'' checked hc"
| "check_component component (ProbeException err checked) hc =
     handle_component_error component err checked hc"

text \<open>
  \<^verbatim>\<open>check_components\<close> walks \<^verbatim>\<open>config['health_check_endpoints'].items()\<close> in order. Each
  entry of the list pairs a component's name with what the probe of its URL does; the keys
  of a dictionary are distinct.
\<close>

fun check_components :: "(string \<times> probe) list \<Rightarrow> HealthCheck \<Rightarrow> HealthCheck" where
  "check_components [] hc = hc"
| "check_components ((component, p) # rest) hc = check_components rest (check_component component p hc)"

section \<open>Circuit breaker (retry\_manager.py)\<close>

datatype CircuitBreakerState = CLOSED | OPEN | HALF_OPEN

text \<open>
  Times are the readings of \<^verbatim>\<open>time.time()\<close>, in seconds, idealised as real numbers.
  \<^verbatim>\<open>last_failure_time\<close> starts as \<^verbatim>\<open>None\<close>.
\<close>

record CircuitBreaker =
  failure_threshold :: int
  reset_timeout :: real
  failures :: int
  state :: CircuitBreakerState
  last_failure_time :: "real option"

definition record_success :: "CircuitBreaker \<Rightarrow> CircuitBreaker" where
  "record_success cb = cb\<lparr>failures := 0, state := CLOSED\<rparr>"

text \<open>\<open>now\<close> is the reading of \<^verbatim>\<open>time.time()\<close> inside the call.\<close>

definition record_failure :: "real \<Rightarrow> CircuitBreaker \<Rightarrow> CircuitBreaker" where
  "record_failure now cb =
     (let cb1 = cb\<lparr>failures := failures cb + 1, last_failure_time := Some now\<rparr>
      in if failures cb1 \<ge> failure_threshold cb1 then cb1\<lparr>state := OPEN\<rparr> else cb1)"

text \<open>
  \<^verbatim>\<open>can_request\<close> returns its answer and may change the state. The middle operand of the
  \<^verbatim>\<open>and\<close> chain is the truth value of \<^verbatim>\<open>last_failure_time\<close>: \<^verbatim>\<open>None\<close> and \<^verbatim>\<open>0.0\<close> are
  false.
\<close>

definition can_request :: "real \<Rightarrow> CircuitBreaker \<Rightarrow> bool \<times> CircuitBreaker" where
  "can_request now cb =
     (if state cb = CLOSED then (True, cb)
      else if state cb = OPEN \<and>
              (case last_failure_time cb of None \<Rightarrow> False
               | Some t \<Rightarrow> t \<noteq> 0 \<and> now - t > reset_timeout cb)
      then (True, cb\<lparr>state := HALF_OPEN\<rparr>)
      else (state cb \<noteq> OPEN, cb))"

text \<open>A run of \<^verbatim>\<open>record_failure\<close> calls, one for each clock reading of the list.\<close>

fun record_failures :: "real list \<Rightarrow> CircuitBreaker \<Rightarrow> CircuitBreaker" where
  "record_failures [] cb = cb"
| "record_failures (t # ts) cb = record_failures ts (record_failure t cb)"

section \<open>Backoff delay (retry\_manager.py)\<close>

text \<open>
  A Python number is an integer of any size or a float. Float arithmetic is idealised as
  arithmetic on real numbers, with one exception that is kept: converting an integer to a
  float raises \<^verbatim>\<open>OverflowError\<close> when the integer rounds to \<open>2\<^sup>1\<^sup>0\<^sup>2\<^sup>4\<close> or beyond, which
  is from \<open>2\<^sup>1\<^sup>0\<^sup>2\<^sup>4 - 2\<^sup>9\<^sup>7\<^sup>0\<close> on.
\<close>

datatype py_number = PyInt int | PyFloat real

fun value_of :: "py_number \<Rightarrow> real" where
  "value_of (PyInt i) = of_int i"
| "value_of (PyFloat x) = x"

definition float_limit :: int where
  "float_limit = 2 ^ 1024 - 2 ^ 970"

fun to_float :: "py_number \<Rightarrow> exn + real" where
  "to_float (PyFloat x) = Inr x"
| "to_float (PyInt i) = (if float_limit \<le> \<bar>i\<bar> then Inl OverflowError else Inr (of_int i))"

text \<open>
  \<^verbatim>\<open>x * y\<close> and \<^verbatim>\<open>x + y\<close>: exact on two integers; otherwise the integer operand is
  converted to a float first.
\<close>

fun py_mul :: "py_number \<Rightarrow> py_number \<Rightarrow> exn + py_number" where
  "py_mul (PyInt a) (PyInt b) = Inr (PyInt (a * b))"
| "py_mul x y =
     (case to_float x of
        Inl e \<Rightarrow> Inl e
      | Inr a \<Rightarrow> (case to_float y of Inl e \<Rightarrow> Inl e | Inr b \<Rightarrow> Inr (PyFloat (a * b))))"

fun py_add :: "py_number \<Rightarrow> py_number \<Rightarrow> exn + py_number" where
  "py_add (PyInt a) (PyInt b) = Inr (PyInt (a + b))"
| "py_add x y =
     (case to_float x of
        Inl e \<Rightarrow> Inl e
      | Inr a \<Rightarrow> (case to_float y of Inl e \<Rightarrow> Inl e | Inr b \<Rightarrow> Inr (PyFloat (a + b))))"

text \<open>
  \<^verbatim>\<open>min(x, y)\<close> returns \<^verbatim>\<open>x\<close> unless \<^verbatim>\<open>y < x\<close>; Python compares an integer with a float
  by their exact values.
\<close>

definition py_min :: "py_number \<Rightarrow> py_number \<Rightarrow> py_number" where
  "py_min x y = (if value_of y < value_of x then y else x)"

text \<open>
  \<^verbatim>\<open>random.uniform(a, b)\<close> of the standard library returns \<^verbatim>\<open>a + (b - a) * random()\<close>;
  \<open>u\<close> is the number that \<^verbatim>\<open>random()\<close> returns, which lies between 0 and 1.
\<close>

definition uniform :: "real \<Rightarrow> real \<Rightarrow> real \<Rightarrow> real" where
  "uniform a b u = a + (b - a) * u"

text \<open>
  The keys of the merged options dictionary that \<^verbatim>\<open>retry\<close> and \<^verbatim>\<open>calculate_delay\<close>
  read. All of them are taken to be present.
\<close>

record retry_options =
  max_retries :: int
  timeout :: real
  retry_strategy :: string
  base_delay :: py_number
  max_delay :: py_number

text \<open>
  \<^verbatim>\<open>fibonacci\<close>: the loop \<^verbatim>\<open>for _ in range(2, n): a, b = b, a + b\<close> runs \<open>n - 2\<close>
  times from \<^verbatim>\<open>a, b = 1, 1\<close> and the method returns \<^verbatim>\<open>b\<close>.
\<close>

fun fibonacci_loop :: "nat \<Rightarrow> int \<Rightarrow> int \<Rightarrow> int" where
  "fibonacci_loop 0 a b = b"
| "fibonacci_loop (Suc k) a b = fibonacci_loop k b (a + b)"

definition fibonacci :: "int \<Rightarrow> int" where
  "fibonacci n = (if n \<le> 1 then 1 else fibonacci_loop (nat (n - 2)) 1 1)"

text \<open>
  \<^verbatim>\<open>2 ** k\<close> for an integer \<open>k\<close>: an integer, or a float below one for a negative \<open>k\<close>.
\<close>

definition two_to_the :: "int \<Rightarrow> py_number" where
  "two_to_the k = (if 0 \<le> k then PyInt (2 ^ nat k) else PyFloat (1 / 2 ^ nat (- k)))"

text \<open>The value of the variable \<^verbatim>\<open>delay\<close> of \<^verbatim>\<open>calculate_delay\<close> before the jitter is added.\<close>

definition delay_before_jitter :: "int \<Rightarrow> retry_options \<Rightarrow> exn + py_number" where
  "delay_before_jitter attempt options =
     (if retry_strategy options = ''linear'' then py_mul (base_delay options) (PyInt attempt)
      else if retry_strategy options = ''exponential''
        then py_mul (base_delay options) (two_to_the (attempt - 1))
      else if retry_strategy options = ''fibonacci''
        then py_mul (PyInt (fibonacci attempt)) (base_delay options)
      else Inr (base_delay options))"

text \<open>
  The value of \<^verbatim>\<open>delay\<close> after \<^verbatim>\<open>jitter = random.uniform(0, 0.1 * delay)\<close> and
  \<^verbatim>\<open>delay += jitter\<close>; \<open>u\<close> is the draw of \<^verbatim>\<open>random()\<close> inside \<^verbatim>\<open>uniform\<close>.
\<close>

definition delay_with_jitter :: "int \<Rightarrow> retry_options \<Rightarrow> real \<Rightarrow> exn + py_number" where
  "delay_with_jitter attempt options u =
     (case delay_before_jitter attempt options of
        Inl e \<Rightarrow> Inl e
      | Inr delay \<Rightarrow>
          (case py_mul (PyFloat (1 / 10)) delay of
             Inl e \<Rightarrow> Inl e
           | Inr bound \<Rightarrow> py_add delay (PyFloat (uniform 0 (value_of bound) u))))"

definition calculate_delay :: "int \<Rightarrow> retry_options \<Rightarrow> real \<Rightarrow> exn + py_number" where
  "calculate_delay attempt options u =
     (case delay_with_jitter attempt options u of
        Inl e \<Rightarrow> Inl e
      | Inr delay \<Rightarrow> Inr (py_min delay (max_delay options)))"

text \<open>
  The specification's Fibonacci numbers, \<open>fib(0) = fib(1) = 1\<close>, and its backoff formula.
\<close>

fun spec_fib :: "nat \<Rightarrow> int" where
  "spec_fib 0 = 1"
| "spec_fib (Suc 0) = 1"
| "spec_fib (Suc (Suc n)) = spec_fib (Suc n) + spec_fib n"

definition spec_formula :: "int \<Rightarrow> retry_options \<Rightarrow> real" where
  "spec_formula n options =
     (if retry_strategy options = ''linear'' then value_of (base_delay options) * of_int n
      else if retry_strategy options = ''exponential''
        then value_of (base_delay options) * 2 ^ nat (n - 1)
      else if retry_strategy options = ''fibonacci''
        then value_of (base_delay options) * of_int (spec_fib (nat n))
      else value_of (base_delay options))"

section \<open>Retry loop (retry\_manager.py)\<close>

text \<open>
  The part of a \<^verbatim>\<open>RetryManager\<close> that \<^verbatim>\<open>retry\<close> changes: its circuit breaker and its
  health monitor. Two more fields record what the loop does to the outside:
  \<open>invocations\<close> counts the calls of the operation \<^verbatim>\<open>fn\<close>, and \<open>sleeps\<close> lists the
  arguments of \<^verbatim>\<open>asyncio.sleep\<close> in order.
\<close>

record RetryManager =
  circuit_breaker :: CircuitBreaker
  rm_health_check :: HealthCheck
  invocations :: nat
  sleeps :: "real list"

text \<open>
  What the outside does while \<^verbatim>\<open>attempts\<close> has a given value: the clock reading inside
  \<^verbatim>\<open>can_request\<close>, the exception of \<^verbatim>\<open>self.security_proof.apply_security_measures()\<close> if
  it raises one, what \<^verbatim>\<open>asyncio.wait_for(fn(), timeout)\<close> does (an exception or the
  result), the clock reading inside \<^verbatim>\<open>record_failure\<close>, the draw of \<^verbatim>\<open>random()\<close> inside
  \<^verbatim>\<open>calculate_delay\<close>, and what the file system does when the health history is saved.
  Every iteration that does not return adds one to \<^verbatim>\<open>attempts\<close>, so the iterations are
  numbered by \<^verbatim>\<open>attempts\<close>; the statements after the loop run at the last value of
  \<^verbatim>\<open>attempts\<close>, for which no iteration runs.
\<close>

record 'a attempt_env =
  check_time :: real
  security :: "exn option"
  outcome :: "exn + 'a"
  failure_time :: real
  jitter_draw :: real
  attempt_io :: history_io

text \<open>
  The \<^verbatim>\<open>try\<close> block of one iteration: \<open>Inl\<close> is the exception that leaves the block,
  \<open>Inr\<close> the value that \<^verbatim>\<open>retry\<close> returns. The circuit-open \<^verbatim>\<open>RetryError\<close> is raised
  inside the block, and so is an exception of \<^verbatim>\<open>health_check.record_success\<close>.
\<close>

definition try_block :: "'a attempt_env \<Rightarrow> string \<Rightarrow> int \<Rightarrow> RetryManager \<Rightarrow> (exn + 'a) \<times> RetryManager" where
  "try_block e operation_name attempts rm =
     (let (allowed, cb1) = can_request (check_time e) (circuit_breaker rm);
          rm1 = rm\<lparr>circuit_breaker := cb1\<rparr>
      in if \<not> allowed then
           (Inl (RetryError Circuit_breaker_is_open (Some (Exception ''Circuit breaker open'')) attempts), rm1)
         else case security e of
           Some x \<Rightarrow> (Inl x, rm1)
         | None \<Rightarrow>
             (let rm2 = rm1\<lparr>invocations := invocations rm1 + 1\<rparr>
              in case outcome e of
                   Inl x \<Rightarrow> (Inl x, rm2)
                 | Inr result \<Rightarrow>
                     (let rm3 = rm2\<lparr>circuit_breaker := record_success (circuit_breaker rm2)\<rparr>;
                          (raised, hc) = hc_record_success operation_name (attempt_io e)
                                           (rm_health_check rm3);
                          rm4 = rm3\<lparr>rm_health_check := hc\<rparr>
                      in case raised of
                           Some x \<Rightarrow> (Inl x, rm4)
                         | None \<Rightarrow> (Inr result, rm4))))"

text \<open>
  The statements after the loop: report to the health monitor and raise. An exception
  of \<^verbatim>\<open>health_check.record_error\<close> leaves \<^verbatim>\<open>retry\<close> in place of the \<^verbatim>\<open>RetryError\<close>.
\<close>

definition retries_exhausted ::
  "string \<Rightarrow> retry_options \<Rightarrow> history_io \<Rightarrow> RetryManager \<Rightarrow> int \<Rightarrow> exn option
     \<Rightarrow> (exn + 'a) \<times> RetryManager" where
  "retries_exhausted operation_name options io rm attempts last_error =
     (let (raised, hc) = hc_record_error operation_name io (rm_health_check rm);
          rm1 = rm\<lparr>rm_health_check := hc\<rparr>
      in case raised of
           Some x \<Rightarrow> (Inl x, rm1)
         | None \<Rightarrow>
             (Inl (RetryError (Max_retries_reached (max_retries options)) last_error attempts), rm1))"

text \<open>
  The loop. The second handler computes the delay and formats it with \<^verbatim>\<open>{retry_delay:.2f}\<close>
  for the log, which converts it to a float; an exception of either leaves \<^verbatim>\<open>retry\<close>,
  since it is raised inside the handler.
\<close>

function retry_loop ::
  "(nat \<Rightarrow> 'a attempt_env) \<Rightarrow> string \<Rightarrow> retry_options \<Rightarrow> RetryManager \<Rightarrow> int \<Rightarrow> exn option
     \<Rightarrow> (exn + 'a) \<times> RetryManager" where
  "retry_loop env operation_name options rm attempts last_error =
     (if attempts < max_retries options then
        (case try_block (env (nat attempts)) operation_name attempts rm of
           (Inr result, rm1) \<Rightarrow> (Inr result, rm1)
         | (Inl x, rm1) \<Rightarrow>
             (let rm2 = rm1\<lparr>circuit_breaker :=
                              record_failure (failure_time (env (nat attempts))) (circuit_breaker rm1)\<rparr>
              in if is_transient x then
                   retry_loop env operation_name options rm2 (attempts + 1) (Some x)
                 else
                   (case calculate_delay (attempts + 1) options (jitter_draw (env (nat attempts))) of
                      Inl y \<Rightarrow> (Inl y, rm2)
                    | Inr retry_delay \<Rightarrow>
                        (case to_float retry_delay of
                           Inl y \<Rightarrow> (Inl y, rm2)
                         | Inr seconds \<Rightarrow>
                             if attempts + 1 \<ge> max_retries options then
                               retries_exhausted operation_name options
                                 (attempt_io (env (nat (attempts + 1)))) rm2 (attempts + 1) (Some x)
                             else
                               retry_loop env operation_name options
                                 (rm2\<lparr>sleeps := sleeps rm2 @ [seconds]\<rparr>) (attempts + 1) (Some x)))))
      else retries_exhausted operation_name options (attempt_io (env (nat attempts))) rm attempts
             last_error)"
  by pat_completeness auto
termination
  by (relation "measure (\<lambda>(env, operation_name, options, rm, attempts, last_error).
                           nat (max_retries options - attempts))") auto

definition retry ::
  "(nat \<Rightarrow> 'a attempt_env) \<Rightarrow> string \<Rightarrow> retry_options \<Rightarrow> RetryManager \<Rightarrow> (exn + 'a) \<times> RetryManager" where
  "retry env operation_name options rm = retry_loop env operation_name options rm 0 None"

text \<open>
  The attributes of a \<^verbatim>\<open>SecurityProof\<close> object (security\_proof.py): the instance
  attributes set by \<^verbatim>\<open>__init__\<close> and the methods of the class. Looking up any other name
  raises \<^verbatim>\<open>AttributeError\<close>; \<open>security_proof_hook\<close> is what
  \<^verbatim>\<open>self.security_proof.apply_security_measures()\<close> does on such an object.
\<close>

definition SecurityProof_attributes :: "string list" where
  "SecurityProof_attributes =
     [''driver'', ''config'', ''cloudscraper'', ''logger'', ''user_agent'', ''proxy_server'',
      ''proxy'', ''fingerprint_injector'', ''last_action_time'', ''__init__'', ''initialize'',
      ''setup_driver'', ''apply_initial_security_measures'', ''randomize_user_agent'',
      ''add_random_delays'', ''simulate_human_typing'', ''generate_human_like_mouse_movement'',
      ''simulate_human_mouse_movement'', ''vary_request_patterns'', ''use_proxy_rotation'',
      ''mimic_browser_fingerprint'', ''avoid_detection_patterns'', ''add_random_cookies'',
      ''randomize_local_storage'', ''simulate_browser_behavior'', ''apply_all_security_measures'',
      ''perform_action'', ''wait_for_element'', ''safe_click'', ''safe_send_keys'',
      ''check_for_security_challenges'', ''cleanup'', ''__aenter__'', ''__aexit__'']"

definition security_proof_hook :: "exn option" where
  "security_proof_hook =
     (if ''apply_security_measures'' \<in> set SecurityProof_attributes then None
      else Some (AttributeError ''apply_security_measures''))"

section \<open>Prioritization entry point (priority\_manager.py)\<close>

record PrioritizationEvent =
  strategy :: string
  input_count :: nat
  output_count :: nat
  execution_time :: real
  timestamp :: int

text \<open>
  The part of a \<^verbatim>\<open>PriorityManager\<close> that the entry point changes: the history of events
  and the health monitor it owns.
\<close>

record PriorityManager =
  prioritization_history :: "PrioritizationEvent list"
  pm_health_check :: HealthCheck

text \<open>
  The attributes of a \<^verbatim>\<open>RetryManager\<close> object: the instance attributes set by
  \<^verbatim>\<open>__init__\<close> and the methods of the class (retry\_manager.py, lines 60 to 168). Looking
  up any other name raises \<^verbatim>\<open>AttributeError\<close>.
\<close>

definition RetryManager_attributes :: "string list" where
  "RetryManager_attributes =
     [''config'', ''health_check'', ''security_proof'', ''logger'', ''circuit_breaker'',
      ''retry_counter'', ''retry_latency'', ''__init__'', ''retry'', ''calculate_delay'',
      ''fibonacci'', ''perform_with_retry'', ''initialize'', ''cleanup'', ''__aenter__'',
      ''__aexit__'']"

definition retry_manager_getattr :: "string \<Rightarrow> exn + unit" where
  "retry_manager_getattr name =
     (if name \<in> set RetryManager_attributes then Inr () else Inl (AttributeError name))"

text \<open>
  \<^verbatim>\<open>handle_prioritization_error\<close> logs, then evaluates
  \<^verbatim>\<open>self.retry_manager.handle_error("prioritization", error)\<close>, then records the error with
  the health monitor. An exception of the second statement leaves the method before the
  third.
\<close>

definition handle_prioritization_error ::
  "exn \<Rightarrow> history_io \<Rightarrow> PriorityManager \<Rightarrow> exn option \<times> PriorityManager" where
  "handle_prioritization_error err io pm =
     (case retry_manager_getattr ''handle_error'' of
        Inl x \<Rightarrow> (Some x, pm)
      | Inr u \<Rightarrow>
          (let (raised, hc) = hc_record_error ''prioritization'' io (pm_health_check pm)
           in (raised, pm\<lparr>pm_health_check := hc\<rparr>)))"

text \<open>
  What the outside does during one call of the entry point: the two readings of
  \<^verbatim>\<open>datetime.now()\<close> around the work, the clock readings of the validation loop, the
  exception of \<^verbatim>\<open>apply_security_measures\<close> if it raises one, and what the file system
  does when \<^verbatim>\<open>record_success\<close> and \<^verbatim>\<open>record_error\<close> save the health history.
\<close>

record prioritize_env =
  start_time :: int
  security_measures :: "exn option"
  validation_clock :: "nat \<Rightarrow> int"
  end_time :: int
  success_io :: history_io
  error_io :: history_io

text \<open>
  \<^verbatim>\<open>prioritize_slots_for_slot_checker\<close>. \<open>Inl\<close> is an exception that reaches the caller;
  \<open>prioritization_failed\<close> is the \<^verbatim>\<open>except\<close> clause, which also catches an exception of
  \<^verbatim>\<open>record_success\<close>.
  \<^verbatim>\<open>total_seconds()\<close> of a difference of two datetimes is the number of microseconds
  divided by \<open>10\<^sup>6\<close>.
\<close>

definition prioritization_failed ::
  "prioritize_env \<Rightarrow> exn \<Rightarrow> PriorityManager \<Rightarrow> (exn + slot list) \<times> PriorityManager" where
  "prioritization_failed env e pm =
     (case handle_prioritization_error e (error_io env) pm of
        (Some x, pm1) \<Rightarrow> (Inl x, pm1)
      | (None, pm1) \<Rightarrow> (Inr [], pm1))"

definition prioritize_slots_for_slot_checker ::
  "prioritize_env \<Rightarrow> py_object list \<Rightarrow> PriorityManager \<Rightarrow> (exn + slot list) \<times> PriorityManager" where
  "prioritize_slots_for_slot_checker env slots pm =
     (case security_measures env of
        Some e \<Rightarrow> prioritization_failed env e pm
      | None \<Rightarrow>
          (let validated_slots = validate_slots (validation_clock env) slots;
               prioritized_slots = apply_prioritization_strategy validated_slots;
               event = \<lparr>strategy = ''angola_to_portugal_standard'',
                        input_count = length slots,
                        output_count = length prioritized_slots,
                        execution_time = of_int (end_time env - start_time env) / 1000000,
                        timestamp = end_time env\<rparr>;
               pm1 = pm\<lparr>prioritization_history := prioritization_history pm @ [event]\<rparr>;
               (raised, hc) = hc_record_success ''prioritization'' (success_io env)
                                (pm_health_check pm1);
               pm2 = pm1\<lparr>pm_health_check := hc\<rparr>
           in case raised of
                Some e \<Rightarrow> prioritization_failed env e pm2
              | None \<Rightarrow> (Inr prioritized_slots, pm2)))"

section \<open>Concrete scenarios\<close>

text \<open>The two slots of the specification's ranking scenario.\<close>

definition schengen_june_1 :: slot where
  "schengen_june_1 =
     \<lparr>slot_id = ''s1'', slot_date = 1748736000000000, slot_type = SCHENGEN, available_spots = 1\<rparr>"

definition nacional_june_5 :: slot where
  "nacional_june_5 =
     \<lparr>slot_id = ''n1'', slot_date = 1749081600000000, slot_type = NACIONAL, available_spots = 2\<rparr>"

text \<open>A slot dated before the clock reading \<open>1748000000000000\<close> and a slot without spots.\<close>

definition past_slot :: slot where
  "past_slot =
     \<lparr>slot_id = ''p1'', slot_date = 1700000000000000, slot_type = NACIONAL, available_spots = 3\<rparr>"

definition zero_spot_slot :: slot where
  "zero_spot_slot =
     \<lparr>slot_id = ''z1'', slot_date = 1749081600000000, slot_type = SCHENGEN, available_spots = 0\<rparr>"

definition fixed_clock :: "nat \<Rightarrow> int" where
  "fixed_clock i = 1748000000000000"

text \<open>
  An options dictionary: five retries and the exponential strategy as config.py gives
  them, a base delay of 5 and a maximal delay of 60 seconds (the integers that config.py
  holds under \<^verbatim>\<open>retry_base_delay\<close> and \<^verbatim>\<open>retry_max_delay\<close>), and a timeout of 30 seconds.
\<close>

definition default_options :: retry_options where
  "default_options =
     \<lparr>max_retries = 5, timeout = 30, retry_strategy = ''exponential'', base_delay = PyInt 5,
      max_delay = PyInt 60\<rparr>"

definition three_retries :: retry_options where
  "three_retries = default_options\<lparr>max_retries := 3\<rparr>"

definition fibonacci_options :: retry_options where
  "fibonacci_options = default_options\<lparr>retry_strategy := ''fibonacci''\<rparr>"

text \<open>A linear strategy whose base delay is the integer \<open>2\<^sup>1\<^sup>0\<^sup>2\<^sup>4\<close>.\<close>

definition huge_delay_options :: retry_options where
  "huge_delay_options =
     three_retries\<lparr>retry_strategy := ''linear'', base_delay := PyInt (2 ^ 1024)\<rparr>"

text \<open>A file system on which saving the health history goes well.\<close>

definition io_ok :: history_io where
  "io_ok = \<lparr>open_error = None, write_error = None\<rparr>"

text \<open>A health monitor that has recorded nothing yet.\<close>

definition no_health :: HealthCheck where
  "no_health = \<lparr>components = [], error_counts = Map.empty\<rparr>"

text \<open>
  A health monitor after one round of \<^verbatim>\<open>check_components\<close> in which the only endpoint
  answered 200.
\<close>

definition health_after_check :: HealthCheck where
  "health_after_check =
     check_components [(''api'', Response 200 (1/4) ''2025-06-01T00:00:00'')] no_health"

text \<open>A health monitor that has counted two errors of the component \<open>status\<close>.\<close>

definition health_two_errors :: HealthCheck where
  "health_two_errors = \<lparr>components = [], error_counts = [''status'' \<mapsto> 2]\<rparr>"

text \<open>A new circuit breaker with the default options of config.py.\<close>

definition new_breaker :: CircuitBreaker where
  "new_breaker =
     \<lparr>failure_threshold = 5, reset_timeout = 30, failures = 0, state = CLOSED,
      last_failure_time = None\<rparr>"

text \<open>
  The same breaker after an earlier call of \<^verbatim>\<open>retry\<close> with \<^verbatim>\<open>max_retries = 3\<close> gave up
  after three failures, the last at time \<open>1000\<close>: it is still closed and has counted
  three failures.
\<close>

definition breaker_after_three_failures :: CircuitBreaker where
  "breaker_after_three_failures = record_failures [985, 990, 1000] new_breaker"

text \<open>The breaker after five failures, the last at time \<open>1000\<close>: it is open.\<close>

definition open_breaker :: CircuitBreaker where
  "open_breaker = record_failures [996, 997, 998, 999, 1000] new_breaker"

definition manager_with :: "CircuitBreaker \<Rightarrow> RetryManager" where
  "manager_with cb = \<lparr>circuit_breaker = cb, rm_health_check = no_health, invocations = 0, sleeps = []\<rparr>"

text \<open>A retry manager with a new breaker whose health monitor has recorded a component.\<close>

definition manager_after_check :: RetryManager where
  "manager_after_check = (manager_with new_breaker)\<lparr>rm_health_check := health_after_check\<rparr>"

text \<open>
  An operation that raises \<^verbatim>\<open>Exception('boom')\<close> at every call, with a security hook that
  never raises, a draw of 0 for the jitter and a file system that works; the iterations
  run ten seconds apart from time \<open>1001\<close> on.
\<close>

definition always_failing :: "nat \<Rightarrow> unit attempt_env" where
  "always_failing i =
     \<lparr>check_time = 1001 + 10 * of_nat i, security = None, outcome = Inl (Exception ''boom''),
      failure_time = 1001 + 10 * of_nat i, jitter_draw = 0, attempt_io = io_ok\<rparr>"

text \<open>
  The same operation behind the security hook of the repository's \<^verbatim>\<open>SecurityProof\<close>
  class.
\<close>

definition always_failing_behind_hook :: "nat \<Rightarrow> unit attempt_env" where
  "always_failing_behind_hook i = (always_failing i)\<lparr>security := security_proof_hook\<rparr>"

text \<open>A call of the entry point during which \<^verbatim>\<open>apply_security_measures\<close> raises.\<close>

definition blocked_env :: prioritize_env where
  "blocked_env =
     \<lparr>start_time = 1748000000000000, security_measures = Some (Exception ''blocked''),
      validation_clock = fixed_clock, end_time = 1748000000000001, success_io = io_ok,
      error_io = io_ok\<rparr>"

definition new_priority_manager :: PriorityManager where
  "new_priority_manager = \<lparr>prioritization_history = [], pm_health_check = no_health\<rparr>"

text \<open>Two endpoints, the first answering 200 and the second 503, and a third that times out.\<close>

definition three_probes :: "(string \<times> probe) list" where
  "three_probes =
     [(''api'', Response 200 (1/4) ''2025-06-01T00:00:00''),
      (''status'', Response 503 (1/2) ''2025-06-01T00:00:01''),
      (''login'', ProbeTimeout ''2025-06-01T00:00:31'')]"

section \<open>Properties of the prioritization strategy\<close>

lemma priority_key_le_iff:
  "priority_key a \<le> priority_key b \<longleftrightarrow>
     (slot_type a = NACIONAL \<and> slot_type b \<noteq> NACIONAL) \<or>
     (slot_type a = NACIONAL \<and> slot_type b = NACIONAL \<and> slot_date a \<le> slot_date b) \<or>
     (slot_type a = SCHENGEN \<and> slot_type b \<noteq> NACIONAL \<and> slot_type b \<noteq> SCHENGEN) \<or>
     (slot_type a = SCHENGEN \<and> slot_type b = SCHENGEN \<and> slot_date a \<le> slot_date b) \<or>
     (slot_type a \<noteq> NACIONAL \<and> slot_type a \<noteq> SCHENGEN \<and>
      slot_type b \<noteq> NACIONAL \<and> slot_type b \<noteq> SCHENGEN \<and> slot_date a \<le> slot_date b)"
  by (cases "slot_type a"; cases "slot_type b") (auto simp: priority_key_def less_eq_prod_def)

lemma strategy_keys_sorted:
  "sorted (map priority_key (apply_prioritization_strategy slots))"
  by (simp add: apply_prioritization_strategy_def)

lemma strategy_nth_key_le:
  assumes "i < j" and "j < length (apply_prioritization_strategy slots)"
  shows "priority_key (apply_prioritization_strategy slots ! i)
           \<le> priority_key (apply_prioritization_strategy slots ! j)"
proof -
  let ?out = "apply_prioritization_strategy slots"
  have "map priority_key ?out ! i \<le> map priority_key ?out ! j"
    by (rule sorted_nth_mono [OF strategy_keys_sorted]) (use assms in simp_all)
  with assms show ?thesis by simp
qed

text \<open>
  Claim C1. The ranked output is a rearrangement of the input in which no SCHENGEN slot
  stands before a NACIONAL slot, two slots of the same visa category stand in
  non-decreasing order of date, and the slots that have the same key stand in the order
  they had in the input (the sort is stable). It holds for every input list, in
  particular for every list of valid slots.
\<close>

theorem apply_prioritization_strategy_ranked:
  "mset (apply_prioritization_strategy slots) = mset slots \<and>
   (\<forall>i j. i < j \<and> j < length (apply_prioritization_strategy slots) \<longrightarrow>
      \<not> (slot_type (apply_prioritization_strategy slots ! i) = SCHENGEN \<and>
         slot_type (apply_prioritization_strategy slots ! j) = NACIONAL) \<and>
      (slot_type (apply_prioritization_strategy slots ! i)
         = slot_type (apply_prioritization_strategy slots ! j) \<longrightarrow>
       slot_date (apply_prioritization_strategy slots ! i)
         \<le> slot_date (apply_prioritization_strategy slots ! j))) \<and>
   (\<forall>k. filter (\<lambda>s. priority_key s = k) (apply_prioritization_strategy slots)
        = filter (\<lambda>s. priority_key s = k) slots)"
proof (intro conjI allI impI)
  show "mset (apply_prioritization_strategy slots) = mset slots"
    by (simp add: apply_prioritization_strategy_def)
next
  fix i j
  assume ij: "i < j \<and> j < length (apply_prioritization_strategy slots)"
  let ?a = "apply_prioritization_strategy slots ! i"
  let ?b = "apply_prioritization_strategy slots ! j"
  have le: "priority_key ?a \<le> priority_key ?b"
    using ij strategy_nth_key_le by blast
  show "\<not> (slot_type ?a = SCHENGEN \<and> slot_type ?b = NACIONAL)"
    using le by (auto simp: priority_key_le_iff)
  show "slot_date ?a \<le> slot_date ?b" if "slot_type ?a = slot_type ?b"
    using le that by (auto simp: priority_key_le_iff)
next
  fix k
  show "filter (\<lambda>s. priority_key s = k) (apply_prioritization_strategy slots)
          = filter (\<lambda>s. priority_key s = k) slots"
    by (simp add: apply_prioritization_strategy_def sort_key_stable)
qed

theorem apply_prioritization_strategy_ranked_witness:
  "(0::nat) < 1 \<and>
   1 < length (apply_prioritization_strategy [schengen_june_1, nacional_june_5]) \<and>
   \<not> (slot_type (apply_prioritization_strategy [schengen_june_1, nacional_june_5] ! 0) = SCHENGEN \<and>
      slot_type (apply_prioritization_strategy [schengen_june_1, nacional_june_5] ! 1) = NACIONAL) \<and>
   apply_prioritization_strategy [schengen_june_1, nacional_june_5]
     = [nacional_june_5, schengen_june_1]"
  using apply_prioritization_strategy_ranked [of "[schengen_june_1, nacional_june_5]"]
  by (simp add: apply_prioritization_strategy_def priority_key_def schengen_june_1_def
        nacional_june_5_def)

section \<open>Properties of the validation\<close>

lemma validate_loop_filter:
  "map SlotObject (validate_loop now k acc items) =
     map SlotObject acc @
     map fst (filter (\<lambda>p. spec_keeps p now) (zip items [k..<k + length items]))"
proof (induction items arbitrary: k acc)
  case Nil
  then show ?case by simp
next
  case (Cons x rest)
  have "[k..<k + length (x # rest)] = k # [Suc k..<k + length (x # rest)]"
    by (rule upt_conv_Cons) simp
  then have upt: "[k..<k + length (x # rest)] = k # [Suc k..<Suc k + length rest]"
    by simp
  show ?case
  proof (cases x)
    case (SlotObject s)
    then show ?thesis
      unfolding upt using Cons.IH [of "Suc k"]
      by (auto simp: spec_invalid_def)
  next
    case OtherObject
    then show ?thesis
      unfolding upt using Cons.IH [of "Suc k"] by simp
  qed
qed

lemma validate_loop_append:
  "validate_loop now k acc (as @ bs) =
     validate_loop now (k + length as) (validate_loop now k acc as) bs"
  by (induction now k acc as rule: validate_loop.induct) auto

lemma validate_loop_all_valid:
  "\<forall>s \<in> set xs. \<forall>i. \<not> spec_invalid (now i) s \<Longrightarrow>
     validate_loop now k acc (map SlotObject xs) = acc @ xs"
  by (induction xs arbitrary: k acc) (auto simp: spec_invalid_def)

text \<open>
  Claim C7. \<^verbatim>\<open>validate_slots\<close> keeps, in their order, exactly the elements that are slots
  and are not invalid at the clock reading of their iteration (recognized visa type, at
  least one spot, date not before the reading). So a list all of whose elements pass comes
  back unchanged, and from a list of valid slots with one past-dated slot and one slot
  without spots among them exactly those two are removed.
\<close>

theorem validate_slots_removes_exactly_invalid:
  "map SlotObject (validate_slots now items)
     = map fst (filter (\<lambda>p. spec_keeps p now) (zip items [0..<length items])) \<and>
   ((\<forall>i < length items. spec_keeps (items ! i, i) now) \<longrightarrow>
      map SlotObject (validate_slots now items) = items) \<and>
   ((\<forall>s \<in> set (xs @ ys @ zs). \<forall>i. \<not> spec_invalid (now i) s) \<and>
    (slot_type p = NACIONAL \<or> slot_type p = SCHENGEN) \<and> 0 < available_spots p \<and>
    (\<forall>i. slot_date p < now i) \<and>
    (slot_type z = NACIONAL \<or> slot_type z = SCHENGEN) \<and> available_spots z \<le> 0 \<longrightarrow>
      validate_slots now (map SlotObject (xs @ [p] @ ys @ [z] @ zs)) = xs @ ys @ zs)"
proof (intro conjI impI)
  show char: "map SlotObject (validate_slots now items)
     = map fst (filter (\<lambda>p. spec_keeps p now) (zip items [0..<length items]))"
    using validate_loop_filter [of now 0 "[]" items] by (simp add: validate_slots_def)
  show "map SlotObject (validate_slots now items) = items"
    if all: "\<forall>i < length items. spec_keeps (items ! i, i) now"
  proof -
    have "\<forall>q \<in> set (zip items [0..<length items]). spec_keeps q now"
      using all by (auto simp: set_zip)
    then have "filter (\<lambda>p. spec_keeps p now) (zip items [0..<length items])
                 = zip items [0..<length items]"
      by (simp add: filter_id_conv)
    then show ?thesis using char by simp
  qed
  show "validate_slots now (map SlotObject (xs @ [p] @ ys @ [z] @ zs)) = xs @ ys @ zs"
    if h: "(\<forall>s \<in> set (xs @ ys @ zs). \<forall>i. \<not> spec_invalid (now i) s) \<and>
    (slot_type p = NACIONAL \<or> slot_type p = SCHENGEN) \<and> 0 < available_spots p \<and>
    (\<forall>i. slot_date p < now i) \<and>
    (slot_type z = NACIONAL \<or> slot_type z = SCHENGEN) \<and> available_spots z \<le> 0"
  proof -
    have vx: "\<forall>s \<in> set xs. \<forall>i. \<not> spec_invalid (now i) s"
      and vy: "\<forall>s \<in> set ys. \<forall>i. \<not> spec_invalid (now i) s"
      and vz: "\<forall>s \<in> set zs. \<forall>i. \<not> spec_invalid (now i) s"
      using h by auto
    have "validate_slots now (map SlotObject (xs @ [p] @ ys @ [z] @ zs))
            = validate_loop now 0 []
                (map SlotObject xs @ [SlotObject p] @ map SlotObject ys @ [SlotObject z]
                   @ map SlotObject zs)"
      by (simp add: validate_slots_def)
    also have "\<dots> = xs @ ys @ zs"
      using h
      by (simp add: validate_loop_append validate_loop_all_valid [OF vx]
            validate_loop_all_valid [OF vy] validate_loop_all_valid [OF vz])
    finally show ?thesis .
  qed
qed

theorem validate_slots_removes_exactly_invalid_witness:
  "spec_keeps (SlotObject nacional_june_5, 0) fixed_clock \<and>
   spec_keeps (SlotObject schengen_june_1, 1) fixed_clock \<and>
   map SlotObject (validate_slots fixed_clock [SlotObject nacional_june_5, SlotObject schengen_june_1])
     = [SlotObject nacional_june_5, SlotObject schengen_june_1] \<and>
   slot_date past_slot < fixed_clock 1 \<and> available_spots zero_spot_slot \<le> 0 \<and>
   validate_slots fixed_clock
     (map SlotObject ([nacional_june_5] @ [past_slot] @ [] @ [zero_spot_slot] @ [schengen_june_1]))
     = [nacional_june_5] @ [] @ [schengen_june_1]"
proof -
  have keeps: "spec_keeps (SlotObject nacional_june_5, 0) fixed_clock"
    "spec_keeps (SlotObject schengen_june_1, 1) fixed_clock"
    by (simp_all add: spec_invalid_def nacional_june_5_def schengen_june_1_def fixed_clock_def)
  then have all: "\<forall>i < length [SlotObject nacional_june_5, SlotObject schengen_june_1].
      spec_keeps ([SlotObject nacional_june_5, SlotObject schengen_june_1] ! i, i) fixed_clock"
    by (auto simp: less_Suc_eq)
  have hyp: "(\<forall>s \<in> set ([nacional_june_5] @ [] @ [schengen_june_1]).
                \<forall>i. \<not> spec_invalid (fixed_clock i) s) \<and>
    (slot_type past_slot = NACIONAL \<or> slot_type past_slot = SCHENGEN) \<and>
    0 < available_spots past_slot \<and>
    (\<forall>i. slot_date past_slot < fixed_clock i) \<and>
    (slot_type zero_spot_slot = NACIONAL \<or> slot_type zero_spot_slot = SCHENGEN) \<and>
    available_spots zero_spot_slot \<le> 0"
    by (simp add: spec_invalid_def nacional_june_5_def schengen_june_1_def fixed_clock_def
          past_slot_def zero_spot_slot_def)
  show ?thesis
    using keeps all hyp
      validate_slots_removes_exactly_invalid
        [of fixed_clock "[SlotObject nacional_june_5, SlotObject schengen_june_1]"
            "[nacional_june_5]" "[]" "[schengen_june_1]" past_slot zero_spot_slot]
    by blast
qed

section \<open>Properties of the circuit breaker\<close>

lemma record_failure_fields:
  "failures (record_failure t cb) = failures cb + 1"
  "failure_threshold (record_failure t cb) = failure_threshold cb"
  "reset_timeout (record_failure t cb) = reset_timeout cb"
  "last_failure_time (record_failure t cb) = Some t"
  "state (record_failure t cb) = (if failure_threshold cb \<le> failures cb + 1 then OPEN else state cb)"
  by (simp_all add: record_failure_def Let_def)

lemma record_failures_snoc:
  "record_failures (ts @ [t]) cb = record_failure t (record_failures ts cb)"
  by (induction ts arbitrary: cb) simp_all

lemma record_failures_constants:
  "failure_threshold (record_failures ts cb) = failure_threshold cb \<and>
   reset_timeout (record_failures ts cb) = reset_timeout cb \<and>
   failures (record_failures ts cb) = failures cb + int (length ts)"
  by (induction ts arbitrary: cb) (simp_all add: record_failure_fields)

lemma record_failures_state:
  assumes "state cb = CLOSED"
  shows "state (record_failures ts cb) =
           (if ts \<noteq> [] \<and> failure_threshold cb \<le> failures cb + int (length ts) then OPEN else CLOSED)"
proof (induction ts rule: rev_induct)
  case Nil
  show ?case using assms by simp
next
  case (snoc t ts)
  show ?case
    using snoc.IH
    by (simp add: record_failures_snoc record_failure_fields record_failures_constants)
qed

lemma record_failures_last_time:
  "ts \<noteq> [] \<Longrightarrow> last_failure_time (record_failures ts cb) = Some (last ts)"
  by (induction ts rule: rev_induct) (simp_all add: record_failures_snoc record_failure_fields)

lemma can_request_open_early:
  assumes "state cb = OPEN" and "last_failure_time cb = Some t" and "now - t \<le> reset_timeout cb"
  shows "can_request now cb = (False, cb)"
  using assms by (simp add: can_request_def)

text \<open>
  Claim C5. Start from a closed breaker and call \<^verbatim>\<open>record_failure\<close> once for each clock
  reading of \<open>ts\<close>. After the first \<open>k\<close> calls the breaker is open if the failure count
  has reached \<^verbatim>\<open>failure_threshold\<close> (and at least one call was made), and closed otherwise:
  it opens at the call on which the count reaches the threshold and not before. Once it
  is open, \<^verbatim>\<open>can_request\<close> returns false and leaves the breaker as it is at every time
  \<open>now\<close> that is not more than \<^verbatim>\<open>reset_timeout\<close> after the last recorded failure.
\<close>

theorem record_failures_opens_at_threshold:
  assumes "state cb = CLOSED"
  shows "(\<forall>k \<le> length ts.
            failures (record_failures (take k ts) cb) = failures cb + int k \<and>
            state (record_failures (take k ts) cb) =
              (if 0 < k \<and> failure_threshold cb \<le> failures cb + int k then OPEN else CLOSED)) \<and>
         (ts \<noteq> [] \<and> failure_threshold cb \<le> failures cb + int (length ts) \<and>
          now - last ts \<le> reset_timeout cb \<longrightarrow>
            can_request now (record_failures ts cb) = (False, record_failures ts cb))"
proof (intro conjI allI impI)
  fix k
  assume k: "k \<le> length ts"
  then have len: "length (take k ts) = k" by simp
  show "failures (record_failures (take k ts) cb) = failures cb + int k"
    using record_failures_constants [of "take k ts" cb] len by simp
  have "take k ts \<noteq> [] \<longleftrightarrow> 0 < k" using len by (metis length_greater_0_conv)
  then show "state (record_failures (take k ts) cb) =
      (if 0 < k \<and> failure_threshold cb \<le> failures cb + int k then OPEN else CLOSED)"
    using record_failures_state [OF assms, of "take k ts"] len by simp
next
  assume h: "ts \<noteq> [] \<and> failure_threshold cb \<le> failures cb + int (length ts) \<and>
          now - last ts \<le> reset_timeout cb"
  have "state (record_failures ts cb) = OPEN"
    using h record_failures_state [OF assms, of ts] by simp
  moreover have "last_failure_time (record_failures ts cb) = Some (last ts)"
    using h record_failures_last_time by blast
  moreover have "now - last ts \<le> reset_timeout (record_failures ts cb)"
    using h record_failures_constants [of ts cb] by simp
  ultimately show "can_request now (record_failures ts cb) = (False, record_failures ts cb)"
    by (rule can_request_open_early)
qed

theorem record_failures_opens_at_threshold_witness:
  "state new_breaker = CLOSED \<and>
   state (record_failures (take 4 [996, 997, 998, 999, 1000]) new_breaker) = CLOSED \<and>
   state (record_failures (take 5 [996, 997, 998, 999, 1000]) new_breaker) = OPEN \<and>
   failure_threshold new_breaker \<le> failures new_breaker + int (length [996, 997, 998, 999, 1000 :: real]) \<and>
   1030 - last [996, 997, 998, 999, 1000] \<le> reset_timeout new_breaker \<and>
   can_request 1030 (record_failures [996, 997, 998, 999, 1000] new_breaker)
     = (False, record_failures [996, 997, 998, 999, 1000] new_breaker)"
proof -
  have closed: "state new_breaker = CLOSED"
    by (simp add: new_breaker_def)
  have hyp: "failure_threshold new_breaker
               \<le> failures new_breaker + int (length [996, 997, 998, 999, 1000 :: real])"
    "1030 - last [996, 997, 998, 999, 1000] \<le> reset_timeout new_breaker"
    by (simp_all add: new_breaker_def)
  note inst = record_failures_opens_at_threshold [OF closed, of "[996, 997, 998, 999, 1000]" 1030]
  have four: "state (record_failures (take 4 [996, 997, 998, 999, 1000]) new_breaker) = CLOSED"
    using inst [THEN conjunct1, rule_format, of 4] by (simp add: new_breaker_def)
  have five: "state (record_failures (take 5 [996, 997, 998, 999, 1000]) new_breaker) = OPEN"
    using inst [THEN conjunct1, rule_format, of 5] by (simp add: new_breaker_def)
  have req: "can_request 1030 (record_failures [996, 997, 998, 999, 1000] new_breaker)
     = (False, record_failures [996, 997, 998, 999, 1000] new_breaker)"
    using inst [THEN conjunct2] hyp by simp
  show ?thesis using closed four five hyp req by blast
qed

text \<open>
  Claim C6, the claim as stated fails: when the open breaker of the scenario is asked 31
  seconds after its last failure it turns half-open and answers true, and asked again one
  second later, with no \<^verbatim>\<open>record_success\<close> or \<^verbatim>\<open>record_failure\<close> in between, it answers
  true again.
\<close>

theorem can_request_half_open_second_probe:
  "state open_breaker = OPEN \<and>
   last_failure_time open_breaker = Some 1000 \<and>
   reset_timeout open_breaker < 1031 - 1000 \<and>
   fst (can_request 1031 open_breaker) = True \<and>
   state (snd (can_request 1031 open_breaker)) = HALF_OPEN \<and>
   fst (can_request 1032 (snd (can_request 1031 open_breaker))) = True"
  by (simp add: open_breaker_def new_breaker_def record_failure_def can_request_def Let_def)

text \<open>
  Claim C6 as amended. When the breaker is open, \<^verbatim>\<open>last_failure_time\<close> is set (and is not
  the zero reading), and more than \<^verbatim>\<open>reset_timeout\<close> seconds have passed since then,
  \<^verbatim>\<open>can_request\<close> turns the breaker half-open and returns true. A half-open breaker
  answers true to every further \<^verbatim>\<open>can_request\<close> and stays half-open, until
  \<^verbatim>\<open>record_success\<close> or \<^verbatim>\<open>record_failure\<close> is called.
\<close>

theorem can_request_half_open:
  assumes "state cb = OPEN" and "last_failure_time cb = Some t" and "t \<noteq> 0"
    and "reset_timeout cb < now - t"
  shows "can_request now cb = (True, cb\<lparr>state := HALF_OPEN\<rparr>) \<and>
         can_request later (cb\<lparr>state := HALF_OPEN\<rparr>) = (True, cb\<lparr>state := HALF_OPEN\<rparr>)"
  using assms by (simp add: can_request_def)

theorem can_request_half_open_witness:
  "state open_breaker = OPEN \<and> last_failure_time open_breaker = Some 1000 \<and> (1000::real) \<noteq> 0 \<and>
   reset_timeout open_breaker < 1031 - 1000 \<and>
   can_request 1031 open_breaker = (True, open_breaker\<lparr>state := HALF_OPEN\<rparr>) \<and>
   can_request 1032 (open_breaker\<lparr>state := HALF_OPEN\<rparr>) = (True, open_breaker\<lparr>state := HALF_OPEN\<rparr>)"
proof -
  have h: "state open_breaker = OPEN" "last_failure_time open_breaker = Some 1000"
    "(1000::real) \<noteq> 0" "reset_timeout open_breaker < 1031 - 1000"
    by (simp_all add: open_breaker_def new_breaker_def record_failure_def Let_def)
  show ?thesis
    using h can_request_half_open [OF h, of 1032] by simp
qed

section \<open>Properties of the backoff delay\<close>

lemma fibonacci_loop_spec_fib:
  "fibonacci_loop k (spec_fib m) (spec_fib (Suc m)) = spec_fib (Suc m + k)"
proof (induction k arbitrary: m)
  case 0
  show ?case by simp
next
  case (Suc k)
  have "fibonacci_loop (Suc k) (spec_fib m) (spec_fib (Suc m))
          = fibonacci_loop k (spec_fib (Suc m)) (spec_fib (Suc (Suc m)))"
    by (simp add: add.commute)
  also have "\<dots> = spec_fib (Suc (Suc m) + k)"
    by (rule Suc.IH)
  finally show ?case by simp
qed

lemma fibonacci_spec_fib:
  assumes "1 \<le> n"
  shows "fibonacci n = spec_fib (nat n - 1)"
proof (cases "n = 1")
  case True
  then show ?thesis by (simp add: fibonacci_def)
next
  case False
  with assms have n: "2 \<le> n" by simp
  have "fibonacci n = fibonacci_loop (nat (n - 2)) (spec_fib 0) (spec_fib (Suc 0))"
    using n by (simp add: fibonacci_def)
  also have "\<dots> = spec_fib (Suc 0 + nat (n - 2))"
    by (rule fibonacci_loop_spec_fib)
  also have "Suc 0 + nat (n - 2) = nat n - 1"
    using n by linarith
  finally show ?thesis .
qed

lemma py_mul_value:
  assumes "py_mul x y = Inr z"
  shows "value_of z = value_of x * value_of y"
  using assms
  by (cases x; cases y) (auto split: if_splits)

lemma py_mul_ints: "py_mul (PyInt a) (PyInt b) = Inr (PyInt (a * b))"
  by simp

lemma to_float_value:
  assumes "to_float x = Inr v"
  shows "v = value_of x"
  using assms by (cases x) (auto split: if_splits)

lemma to_float_error:
  assumes "to_float x = Inl e"
  shows "e = OverflowError"
  using assms by (cases x) (auto split: if_splits)

lemma tenth_of_delay:
  "py_mul (PyFloat (1 / 10)) d =
     (case to_float d of Inl e \<Rightarrow> Inl e | Inr v \<Rightarrow> Inr (PyFloat (v / 10)))"
  by (cases d) (auto split: sum.splits)

lemma delay_with_jitter_value:
  assumes "delay_before_jitter n options = Inr d" and "to_float d = Inr v"
  shows "delay_with_jitter n options u = Inr (PyFloat (v + v / 10 * u))"
  using assms
  by (cases d) (auto simp: delay_with_jitter_def tenth_of_delay uniform_def split: if_splits)

lemma delay_with_jitter_overflow:
  assumes "delay_before_jitter n options = Inr d" and "to_float d = Inl e"
  shows "delay_with_jitter n options u = Inl OverflowError"
  using assms to_float_error [OF assms(2)]
  by (simp add: delay_with_jitter_def tenth_of_delay)

lemma two_to_the_value:
  assumes "1 \<le> n"
  shows "two_to_the (n - 1) = PyInt (2 ^ nat (n - 1))"
  using assms by (simp add: two_to_the_def)

lemma jitter_interval:
  fixes v u :: real
  assumes "0 \<le> v" and "0 \<le> u" and "u \<le> 1"
  shows "v \<le> v + v / 10 * u" and "v + v / 10 * u \<le> v * 1.1"
proof -
  have "0 \<le> v / 10 * u" using assms by simp
  then show "v \<le> v + v / 10 * u" by simp
  have "v / 10 * u \<le> v / 10 * 1"
    using assms by (intro mult_left_mono) simp_all
  then show "v + v / 10 * u \<le> v * 1.1" by simp
qed

lemma jitter_interval_negative:
  fixes v u :: real
  assumes "v \<le> 0" and "0 \<le> u" and "u \<le> 1"
  shows "v * 1.1 \<le> v + v / 10 * u" and "v + v / 10 * u \<le> v"
proof -
  have "v / 10 * u \<le> 0"
    using assms by (simp add: mult_nonpos_nonneg)
  then show "v + v / 10 * u \<le> v" by simp
  have "(- v) / 10 * u \<le> (- v) / 10 * 1"
    using assms by (intro mult_left_mono) simp_all
  then show "v * 1.1 \<le> v + v / 10 * u" by simp
qed

text \<open>
  Claim C2, the claim as stated fails in two places. For the Fibonacci strategy at the
  second attempt with a base delay of 5 the code computes a delay of 5 before jitter,
  where the formula with \<open>fib(0) = fib(1) = 1\<close> gives \<open>5 * fib(2) = 10\<close>. And for the
  exponential strategy at attempt 1100 the delay before jitter is the integer
  \<open>5 * 2\<^sup>1\<^sup>0\<^sup>9\<^sup>9\<close>, on which \<^verbatim>\<open>0.1 * delay\<close> raises \<^verbatim>\<open>OverflowError\<close>: no delay is
  returned, clamped or not.
\<close>

theorem fibonacci_delay_differs_from_spec:
  "(1::int) \<le> 2 \<and>
   retry_strategy fibonacci_options = ''fibonacci'' \<and>
   delay_before_jitter 2 fibonacci_options = Inr (PyInt 5) \<and>
   spec_formula 2 fibonacci_options = 10 \<and>
   (1::int) \<le> 1100 \<and>
   delay_before_jitter 1100 default_options = Inr (PyInt (5 * 2 ^ 1099)) \<and>
   calculate_delay 1100 default_options (1 / 2) = Inl OverflowError"
  by (simp add: calculate_delay_def delay_with_jitter_def delay_before_jitter_def
        spec_formula_def fibonacci_options_def default_options_def fibonacci_def
        two_to_the_def float_limit_def numeral_2_eq_2)

text \<open>
  Claim C2 as amended. For every attempt number \<open>n \<ge> 1\<close> the delay before jitter, when
  it can be computed, is \<open>base * n\<close> for the linear strategy, \<open>base * 2^(n-1)\<close> for the
  exponential one, \<open>base * fib(n-1)\<close> with \<open>fib(0) = fib(1) = 1\<close> for the Fibonacci one
  (the factors are 1, 1, 2, 3, 5, ... for \<open>n\<close> = 1, 2, 3, 4, 5, ...), and \<open>base\<close> for any
  other strategy name; except for the Fibonacci strategy this is the specification's
  formula. With an integer base delay it can always be computed, and is an integer.
  If that delay converts to a float \<open>v\<close>, then for every draw \<open>u\<close> of \<^verbatim>\<open>random()\<close>
  between 0 and 1 the delay with jitter lies between \<open>v\<close> and \<open>1.1 * v\<close> (in this order
  when \<open>v \<ge> 0\<close>, in the other when \<open>v \<le> 0\<close>), and the result is the smaller of it and
  \<^verbatim>\<open>max_delay\<close>. If the delay is an integer too large for a float, \<^verbatim>\<open>calculate_delay\<close>
  raises \<^verbatim>\<open>OverflowError\<close>.
\<close>

theorem calculate_delay_formula:
  assumes "1 \<le> n"
  shows "(\<forall>d. delay_before_jitter n options = Inr d \<longrightarrow>
            value_of d =
              (if retry_strategy options = ''linear'' then value_of (base_delay options) * of_int n
               else if retry_strategy options = ''exponential''
                 then value_of (base_delay options) * 2 ^ nat (n - 1)
               else if retry_strategy options = ''fibonacci''
                 then value_of (base_delay options) * of_int (spec_fib (nat n - 1))
               else value_of (base_delay options))) \<and>
         (\<forall>b. base_delay options = PyInt b \<longrightarrow>
            (\<exists>k. delay_before_jitter n options = Inr (PyInt k))) \<and>
         (\<forall>d. delay_before_jitter n options = Inr d \<and> retry_strategy options \<noteq> ''fibonacci'' \<longrightarrow>
            value_of d = spec_formula n options) \<and>
         (\<forall>d v. delay_before_jitter n options = Inr d \<and> to_float d = Inr v \<and>
                0 \<le> u \<and> u \<le> 1 \<longrightarrow>
            v = value_of d \<and>
            (\<exists>w. delay_with_jitter n options u = Inr (PyFloat w) \<and>
                 (0 \<le> v \<longrightarrow> v \<le> w \<and> w \<le> v * 1.1) \<and>
                 (v \<le> 0 \<longrightarrow> v * 1.1 \<le> w \<and> w \<le> v) \<and>
                 calculate_delay n options u = Inr (py_min (PyFloat w) (max_delay options)) \<and>
                 value_of (py_min (PyFloat w) (max_delay options))
                   = min w (value_of (max_delay options)))) \<and>
         (\<forall>d e. delay_before_jitter n options = Inr d \<and> to_float d = Inl e \<longrightarrow>
            calculate_delay n options u = Inl OverflowError)"
proof (intro conjI allI impI)
  fix d
  assume d: "delay_before_jitter n options = Inr d"
  show formula: "value_of d =
              (if retry_strategy options = ''linear'' then value_of (base_delay options) * of_int n
               else if retry_strategy options = ''exponential''
                 then value_of (base_delay options) * 2 ^ nat (n - 1)
               else if retry_strategy options = ''fibonacci''
                 then value_of (base_delay options) * of_int (spec_fib (nat n - 1))
               else value_of (base_delay options))"
    using d two_to_the_value [OF assms] fibonacci_spec_fib [OF assms]
    by (auto simp: delay_before_jitter_def dest!: py_mul_value split: if_splits)
next
  fix b
  assume "base_delay options = PyInt b"
  then show "\<exists>k. delay_before_jitter n options = Inr (PyInt k)"
    using two_to_the_value [OF assms] by (simp add: delay_before_jitter_def)
next
  fix d
  assume h: "delay_before_jitter n options = Inr d \<and> retry_strategy options \<noteq> ''fibonacci''"
  then show "value_of d = spec_formula n options"
    using two_to_the_value [OF assms]
    by (auto simp: delay_before_jitter_def spec_formula_def dest!: py_mul_value split: if_splits)
next
  fix d v
  assume h: "delay_before_jitter n options = Inr d \<and> to_float d = Inr v \<and>
                0 \<le> u \<and> u \<le> 1"
  show "v = value_of d"
    using h to_float_value by blast
  let ?w = "v + v / 10 * u"
  have w: "delay_with_jitter n options u = Inr (PyFloat ?w)"
    using h delay_with_jitter_value by blast
  have "0 \<le> v \<longrightarrow> v \<le> ?w \<and> ?w \<le> v * 1.1"
    using h jitter_interval by blast
  moreover have "v \<le> 0 \<longrightarrow> v * 1.1 \<le> ?w \<and> ?w \<le> v"
    using h jitter_interval_negative by blast
  moreover have "calculate_delay n options u = Inr (py_min (PyFloat ?w) (max_delay options))"
    using w by (simp add: calculate_delay_def)
  moreover have "value_of (py_min (PyFloat ?w) (max_delay options))
                   = min ?w (value_of (max_delay options))"
    by (simp add: py_min_def min_def)
  ultimately show "\<exists>w. delay_with_jitter n options u = Inr (PyFloat w) \<and>
                 (0 \<le> v \<longrightarrow> v \<le> w \<and> w \<le> v * 1.1) \<and>
                 (v \<le> 0 \<longrightarrow> v * 1.1 \<le> w \<and> w \<le> v) \<and>
                 calculate_delay n options u = Inr (py_min (PyFloat w) (max_delay options)) \<and>
                 value_of (py_min (PyFloat w) (max_delay options))
                   = min w (value_of (max_delay options))"
    using w by blast
next
  fix d e
  assume "delay_before_jitter n options = Inr d \<and> to_float d = Inl e"
  then have "delay_with_jitter n options u = Inl OverflowError"
    using delay_with_jitter_overflow by blast
  then show "calculate_delay n options u = Inl OverflowError"
    by (simp add: calculate_delay_def)
qed

theorem calculate_delay_formula_witness:
  "(1::int) \<le> 3 \<and>
   delay_before_jitter 3 fibonacci_options = Inr (PyInt 10) \<and>
   to_float (PyInt 10) = Inr 10 \<and>
   (0::real) \<le> 10 \<and> (0::real) \<le> 1 / 2 \<and> (1 / 2 :: real) \<le> 1 \<and>
   delay_with_jitter 3 fibonacci_options (1 / 2) = Inr (PyFloat (21 / 2)) \<and>
   (10::real) \<le> 21 / 2 \<and> (21 / 2 :: real) \<le> 10 * 1.1 \<and>
   calculate_delay 3 fibonacci_options (1 / 2) = Inr (PyFloat (21 / 2))"
proof -
  have n: "(1::int) \<le> 3" by simp
  have d: "delay_before_jitter 3 fibonacci_options = Inr (PyInt 10)"
    by (simp add: delay_before_jitter_def fibonacci_options_def default_options_def
          fibonacci_def numeral_2_eq_2)
  have f: "to_float (PyInt 10) = Inr 10"
    by (simp add: float_limit_def)
  have u: "(0::real) \<le> 10 \<and> (0::real) \<le> 1 / 2 \<and> (1 / 2 :: real) \<le> 1"
    by simp
  obtain w where w: "delay_with_jitter 3 fibonacci_options (1 / 2) = Inr (PyFloat w)"
    "10 \<le> w" "w \<le> 10 * 1.1"
    "calculate_delay 3 fibonacci_options (1 / 2) = Inr (py_min (PyFloat w) (max_delay fibonacci_options))"
    using calculate_delay_formula [OF n, of fibonacci_options "1 / 2", THEN conjunct2,
        THEN conjunct2, THEN conjunct2, THEN conjunct1, rule_format, of "PyInt 10" 10] d f u
    by blast
  have "delay_with_jitter 3 fibonacci_options (1 / 2) = Inr (PyFloat (21 / 2))"
    using d by (simp add: delay_with_jitter_def uniform_def float_limit_def)
  with w(1) have eq: "w = 21 / 2" by simp
  have "calculate_delay 3 fibonacci_options (1 / 2) = Inr (PyFloat (21 / 2))"
    using w(4) eq by (simp add: py_min_def fibonacci_options_def default_options_def)
  then show ?thesis
    using n d f u w eq by simp
qed

section \<open>Properties of the retry loop\<close>

lemmas scenario_defs =
  three_retries_def default_options_def manager_with_def open_breaker_def new_breaker_def
  breaker_after_three_failures_def always_failing_def no_health_def io_ok_def
  always_failing_behind_hook_def security_proof_hook_def SecurityProof_attributes_def
  manager_after_check_def health_after_check_def huge_delay_options_def

lemmas retry_unfold =
  retry_def try_block_def retries_exhausted_def record_failure_def
  can_request_def calculate_delay_def delay_with_jitter_def delay_before_jitter_def
  two_to_the_def uniform_def py_min_def float_limit_def hc_record_error_def
  hc_record_success_def save_health_history_def error_count_get_def Let_def

lemma try_block_closed_failure:
  assumes "state (circuit_breaker rm) = CLOSED"
    and "security e = Some x \<or> (security e = None \<and> outcome e = Inl x)"
  shows "try_block e operation_name attempts rm =
           (Inl x, if security e = None then rm\<lparr>invocations := invocations rm + 1\<rparr> else rm)"
  using assms by (auto simp: try_block_def can_request_def)

lemma record_failure_keeps_closed:
  assumes "state cb = CLOSED" and "failures cb + 1 < failure_threshold cb"
  shows "state (record_failure t cb) = CLOSED"
  using assms by (simp add: record_failure_def Let_def)

lemma record_failure_count:
  "failures (record_failure t cb) = failures cb + 1 \<and>
   failure_threshold (record_failure t cb) = failure_threshold cb"
  by (simp add: record_failure_def Let_def)

lemma retries_exhausted_raises:
  assumes "components (rm_health_check rm) = []"
    and "open_error io = None" and "write_error io = None"
  shows "fst (retries_exhausted operation_name options io rm attempts last_error)
           = Inl (RetryError (Max_retries_reached (max_retries options)) last_error attempts) \<and>
         invocations (snd (retries_exhausted operation_name options io rm attempts last_error))
           = invocations rm"
  using assms
  by (simp add: retries_exhausted_def hc_record_error_def save_health_history_def Let_def)

lemma retry_loop_always_failing:
  fixes env :: "nat \<Rightarrow> 'a attempt_env"
  assumes fails: "\<forall>i. i < nat (max_retries options) \<longrightarrow>
                    security (env i) = Some (errs i) \<or>
                    (security (env i) = None \<and> outcome (env i) = Inl (errs i))"
    and delays: "\<forall>i. i < nat (max_retries options) \<and> \<not> is_transient (errs i) \<longrightarrow>
                    (\<exists>d s. calculate_delay (int i + 1) options (jitter_draw (env i)) = Inr d \<and>
                           to_float d = Inr s)"
    and io: "open_error (attempt_io (env (nat (max_retries options)))) = None"
            "write_error (attempt_io (env (nat (max_retries options)))) = None"
  shows "n = nat (max_retries options - a) \<Longrightarrow> 0 \<le> a \<Longrightarrow> a < max_retries options \<Longrightarrow>
         state (circuit_breaker rm) = CLOSED \<Longrightarrow>
         failures (circuit_breaker rm) + (max_retries options - a) \<le> failure_threshold (circuit_breaker rm) \<Longrightarrow>
         components (rm_health_check rm) = [] \<Longrightarrow>
         fst (retry_loop env operation_name options rm a last_error)
           = Inl (RetryError (Max_retries_reached (max_retries options))
                    (Some (errs (nat (max_retries options) - 1))) (max_retries options)) \<and>
         invocations (snd (retry_loop env operation_name options rm a last_error))
           = invocations rm +
             length (filter (\<lambda>i. security (env i) = None) [nat a..<nat (max_retries options)])"
proof (induction n arbitrary: a rm last_error)
  case 0
  then show ?case by simp
next
  case (Suc n)
  let ?N = "nat (max_retries options)"
  let ?e = "env (nat a)"
  let ?x = "errs (nat a)"
  let ?goal = "Inl (RetryError (Max_retries_reached (max_retries options))
                    (Some (errs (?N - 1))) (max_retries options)) :: exn + 'a"
  define rm1 where "rm1 = (if security ?e = None then rm\<lparr>invocations := invocations rm + 1\<rparr> else rm)"
  define rm2 where "rm2 = rm1\<lparr>circuit_breaker := record_failure (failure_time ?e) (circuit_breaker rm1)\<rparr>"
  have idx: "nat a < ?N"
    using Suc.prems by simp
  have tb: "try_block ?e operation_name a rm = (Inl ?x, rm1)"
    unfolding rm1_def using Suc.prems fails idx by (intro try_block_closed_failure) simp_all
  have cb2: "circuit_breaker rm2 = record_failure (failure_time ?e) (circuit_breaker rm)"
    and hc2: "components (rm_health_check rm2) = []"
    and inv2: "invocations rm2 = invocations rm + (if security ?e = None then 1 else 0)"
    using Suc.prems by (simp_all add: rm1_def rm2_def)
  have upt: "[nat a..<?N] = nat a # [nat (a + 1)..<?N]"
    using idx Suc.prems(2) by (simp add: upt_conv_Cons nat_add_distrib)
  have count: "invocations rm2 + length (filter (\<lambda>i. security (env i) = None) [nat (a + 1)..<?N])
                 = invocations rm + length (filter (\<lambda>i. security (env i) = None) [nat a..<?N])"
    unfolding upt inv2 by simp
  have delay: "\<exists>d s. calculate_delay (a + 1) options (jitter_draw ?e) = Inr d \<and> to_float d = Inr s"
    if "\<not> is_transient ?x"
    using delays idx that Suc.prems(2) by (metis int_nat_eq)
  show ?case
  proof (cases "a + 1 \<ge> max_retries options")
    case True
    then have last: "a + 1 = max_retries options"
      using Suc.prems by simp
    have "nat a = ?N - 1"
      using last Suc.prems(2) by linarith
    then have x: "?x = errs (?N - 1)"
      by simp
    have nil: "[nat (a + 1)..<?N] = []"
      using last by simp
    have ex: "fst (retries_exhausted operation_name options (attempt_io (env (nat (a + 1)))) rm2
                     (a + 1) (Some ?x) :: (exn + 'a) \<times> RetryManager) = ?goal \<and>
              invocations (snd (retries_exhausted operation_name options
                     (attempt_io (env (nat (a + 1)))) rm2 (a + 1) (Some ?x)
                       :: (exn + 'a) \<times> RetryManager)) = invocations rm2"
      using retries_exhausted_raises [OF hc2, of "attempt_io (env (nat (a + 1)))"] io last x
      by simp
    have stop: "retry_loop env operation_name options rm2 (a + 1) (Some ?x)
                  = retries_exhausted operation_name options (attempt_io (env (nat (a + 1)))) rm2
                      (a + 1) (Some ?x)"
      using True by (subst retry_loop.simps) simp
    have "retry_loop env operation_name options rm a last_error
            = retries_exhausted operation_name options (attempt_io (env (nat (a + 1)))) rm2
                (a + 1) (Some ?x)"
    proof (cases "is_transient ?x")
      case True
      then show ?thesis
        using Suc.prems(3) tb stop by (subst retry_loop.simps) (simp add: Let_def rm2_def)
    next
      case False
      then obtain d s where "calculate_delay (a + 1) options (jitter_draw ?e) = Inr d"
        "to_float d = Inr s"
        using delay by blast
      then show ?thesis
        using Suc.prems(3) False \<open>a + 1 \<ge> max_retries options\<close> tb
        by (subst retry_loop.simps) (simp add: Let_def rm2_def)
    qed
    then show ?thesis
      using ex count nil by simp
  next
    case False
    then have more: "a + 1 < max_retries options" by simp
    have n: "n = nat (max_retries options - (a + 1))"
      using Suc.prems by simp
    have closed: "state (circuit_breaker rm2) = CLOSED"
      and room: "failures (circuit_breaker rm2) + (max_retries options - (a + 1))
                   \<le> failure_threshold (circuit_breaker rm2)"
      using Suc.prems more
      by (simp_all add: cb2 record_failure_keeps_closed record_failure_count)
    have step: "fst (retry_loop env operation_name options rm3 (a + 1) (Some ?x)) = ?goal \<and>
         invocations (snd (retry_loop env operation_name options rm3 (a + 1) (Some ?x)))
           = invocations rm3 + length (filter (\<lambda>i. security (env i) = None) [nat (a + 1)..<?N])"
      if "circuit_breaker rm3 = circuit_breaker rm2"
        and "rm_health_check rm3 = rm_health_check rm2" for rm3
      using Suc.IH [OF n _ more, of rm3 "Some ?x"] that closed room hc2 Suc.prems(2) by simp
    show ?thesis
    proof (cases "is_transient ?x")
      case True
      have "retry_loop env operation_name options rm a last_error
              = retry_loop env operation_name options rm2 (a + 1) (Some ?x)"
        using Suc.prems(3) True tb by (subst retry_loop.simps) (simp add: Let_def rm2_def)
      then show ?thesis
        using step [of rm2] count by simp
    next
      case generic: False
      then obtain d s where ds: "calculate_delay (a + 1) options (jitter_draw ?e) = Inr d"
        "to_float d = Inr s"
        using delay by blast
      define rm3 where "rm3 = rm2\<lparr>sleeps := sleeps rm2 @ [s]\<rparr>"
      have "retry_loop env operation_name options rm a last_error
              = retry_loop env operation_name options rm3 (a + 1) (Some ?x)"
        using Suc.prems(3) generic False tb ds
        by (subst retry_loop.simps) (simp add: Let_def rm2_def rm3_def)
      moreover have "invocations rm3 = invocations rm2" "circuit_breaker rm3 = circuit_breaker rm2"
        "rm_health_check rm3 = rm_health_check rm2"
        by (simp_all add: rm3_def)
      ultimately show ?thesis
        using step [of rm3] count by simp
    qed
  qed
qed

text \<open>
  Claim C3, the claim as stated fails; in each of four runs the breaker starts closed
  and \<^verbatim>\<open>max_retries = 3\<close> is below \<^verbatim>\<open>failure_threshold = 5\<close>, and the operation raises
  at every call. The first run starts from a breaker that has already counted three
  failures: it opens after the second failure, the operation is invoked twice, and the
  \<^verbatim>\<open>last_error\<close> is the circuit-open error of the third iteration. In the second run the
  security hook is the one of the repository's \<^verbatim>\<open>SecurityProof\<close>, which has no
  \<^verbatim>\<open>apply_security_measures\<close>: every attempt ends in \<^verbatim>\<open>AttributeError\<close> before the
  operation, which is never invoked. In the third run the health monitor has recorded a
  component: saving the health history raises \<^verbatim>\<open>TypeError\<close>, which leaves \<^verbatim>\<open>retry\<close>
  in place of the exhaustion error. In the fourth run the base delay is an integer too
  large for a float: \<^verbatim>\<open>calculate_delay\<close> raises \<^verbatim>\<open>OverflowError\<close> inside the handler
  after the first invocation.
\<close>

theorem retry_cut_short_by_earlier_failures:
  "state breaker_after_three_failures = CLOSED \<and>
   max_retries three_retries \<le> failure_threshold breaker_after_three_failures \<and>
   failures breaker_after_three_failures = 3 \<and>
   outcome (always_failing 0) = Inl (Exception ''boom'') \<and>
   invocations
     (snd (retry always_failing ''op'' three_retries (manager_with breaker_after_three_failures))) = 2 \<and>
   fst (retry always_failing ''op'' three_retries (manager_with breaker_after_three_failures))
     = Inl (RetryError (Max_retries_reached 3)
              (Some (RetryError Circuit_breaker_is_open
                       (Some (Exception ''Circuit breaker open'')) 2)) 3) \<and>
   state new_breaker = CLOSED \<and>
   max_retries three_retries \<le> failure_threshold new_breaker \<and>
   security_proof_hook = Some (AttributeError ''apply_security_measures'') \<and>
   invocations
     (snd (retry always_failing_behind_hook ''op'' three_retries (manager_with new_breaker))) = 0 \<and>
   fst (retry always_failing_behind_hook ''op'' three_retries (manager_with new_breaker))
     = Inl (RetryError (Max_retries_reached 3)
              (Some (AttributeError ''apply_security_measures'')) 3) \<and>
   state (circuit_breaker manager_after_check) = CLOSED \<and>
   fst (retry always_failing ''op'' three_retries manager_after_check)
     = Inl (TypeError ''Object of type HealthStatus is not JSON serializable'') \<and>
   max_retries huge_delay_options \<le> failure_threshold new_breaker \<and>
   invocations
     (snd (retry always_failing ''op'' huge_delay_options (manager_with new_breaker))) = 1 \<and>
   fst (retry always_failing ''op'' huge_delay_options (manager_with new_breaker))
     = Inl OverflowError"
  by (simp add: retry_unfold scenario_defs)

text \<open>
  Claim C3 as amended. Let the breaker be closed at the start with a failure count that
  leaves room for all attempts (\<open>failures + max_retries \<le> failure_threshold\<close>; for a new
  breaker, whose count is zero, this is \<open>max_retries \<le> failure_threshold\<close>), let
  \<open>max_retries\<close> be positive, and let every attempt end in an exception, raised by the
  security hook or, when the hook returns, by the operation. Let the backoff delay of
  every attempt that ends in an exception of the second handler be computable and
  convertible to a float, and let the saving of the health history after the loop not
  raise (no component recorded, no error of the file system). Then \<^verbatim>\<open>retry\<close> makes
  exactly \<open>max_retries\<close> attempts and raises the exhaustion error, whose \<^verbatim>\<open>attempts\<close> is
  \<open>max_retries\<close> and whose \<^verbatim>\<open>last_error\<close> is the exception of the last attempt. The
  operation is invoked once in every attempt that passes the security hook: exactly
  \<open>max_retries\<close> times when the hook never raises.
\<close>

theorem retry_exhaustion:
  fixes env :: "nat \<Rightarrow> 'a attempt_env"
  assumes "state (circuit_breaker rm) = CLOSED"
    and "failures (circuit_breaker rm) + max_retries options \<le> failure_threshold (circuit_breaker rm)"
    and "0 < max_retries options"
    and "\<forall>i. i < nat (max_retries options) \<longrightarrow>
           security (env i) = Some (errs i) \<or>
           (security (env i) = None \<and> outcome (env i) = Inl (errs i))"
    and "\<forall>i. i < nat (max_retries options) \<and> \<not> is_transient (errs i) \<longrightarrow>
           (\<exists>d s. calculate_delay (int i + 1) options (jitter_draw (env i)) = Inr d \<and>
                  to_float d = Inr s)"
    and "components (rm_health_check rm) = []"
    and "open_error (attempt_io (env (nat (max_retries options)))) = None"
    and "write_error (attempt_io (env (nat (max_retries options)))) = None"
  shows "fst (retry env operation_name options rm)
           = Inl (RetryError (Max_retries_reached (max_retries options))
                    (Some (errs (nat (max_retries options) - 1))) (max_retries options)) \<and>
         invocations (snd (retry env operation_name options rm))
           = invocations rm +
             length (filter (\<lambda>i. security (env i) = None) [0..<nat (max_retries options)]) \<and>
         ((\<forall>i. i < nat (max_retries options) \<longrightarrow> security (env i) = None) \<longrightarrow>
            invocations (snd (retry env operation_name options rm))
              = invocations rm + nat (max_retries options))"
proof -
  have main: "fst (retry env operation_name options rm)
           = Inl (RetryError (Max_retries_reached (max_retries options))
                    (Some (errs (nat (max_retries options) - 1))) (max_retries options)) \<and>
         invocations (snd (retry env operation_name options rm))
           = invocations rm +
             length (filter (\<lambda>i. security (env i) = None) [0..<nat (max_retries options)])"
    using retry_loop_always_failing [OF assms(4,5,7,8), of "nat (max_retries options)" 0 rm
        operation_name None] assms(1-3,6)
    by (simp add: retry_def)
  have "length (filter (\<lambda>i. security (env i) = None) [0..<nat (max_retries options)])
          = nat (max_retries options)"
    if "\<forall>i. i < nat (max_retries options) \<longrightarrow> security (env i) = None"
  proof -
    have "filter (\<lambda>i. security (env i) = None) [0..<nat (max_retries options)]
            = [0..<nat (max_retries options)]"
      using that by (simp add: filter_id_conv)
    then show ?thesis by simp
  qed
  with main show ?thesis by simp
qed

theorem retry_exhaustion_witness:
  "state (circuit_breaker (manager_with new_breaker)) = CLOSED \<and>
   failures (circuit_breaker (manager_with new_breaker)) + max_retries three_retries
     \<le> failure_threshold (circuit_breaker (manager_with new_breaker)) \<and>
   0 < max_retries three_retries \<and>
   security (always_failing 2) = None \<and>
   outcome (always_failing 2) = Inl (Exception ''boom'') \<and>
   calculate_delay 3 three_retries (jitter_draw (always_failing 2)) = Inr (PyFloat 20) \<and>
   to_float (PyFloat 20) = Inr 20 \<and>
   components (rm_health_check (manager_with new_breaker)) = [] \<and>
   open_error (attempt_io (always_failing 3)) = None \<and>
   write_error (attempt_io (always_failing 3)) = None \<and>
   fst (retry always_failing ''op'' three_retries (manager_with new_breaker))
     = Inl (RetryError (Max_retries_reached 3) (Some (Exception ''boom'')) 3) \<and>
   invocations (snd (retry always_failing ''op'' three_retries (manager_with new_breaker))) = 3"
proof -
  have h1: "state (circuit_breaker (manager_with new_breaker)) = CLOSED"
    by (simp add: manager_with_def new_breaker_def)
  have h2: "failures (circuit_breaker (manager_with new_breaker)) + max_retries three_retries
     \<le> failure_threshold (circuit_breaker (manager_with new_breaker))"
    by (simp add: manager_with_def new_breaker_def three_retries_def default_options_def)
  have h3: "0 < max_retries three_retries"
    by (simp add: three_retries_def default_options_def)
  have h4: "\<forall>i. i < nat (max_retries three_retries) \<longrightarrow>
           security (always_failing i) = Some ((\<lambda>i. Exception ''boom'') i) \<or>
           (security (always_failing i) = None \<and>
            outcome (always_failing i) = Inl ((\<lambda>i. Exception ''boom'') i))"
    by (simp add: always_failing_def)
  have d: "calculate_delay (int i + 1) three_retries (jitter_draw (always_failing i))
             = Inr (PyFloat (5 * 2 ^ i)) \<and> to_float (PyFloat (5 * 2 ^ i)) = Inr (5 * 2 ^ i)"
    if "i < 3" for i
  proof -
    from that have "i = 0 \<or> i = 1 \<or> i = 2" by auto
    then show ?thesis
      by (auto simp: calculate_delay_def delay_with_jitter_def delay_before_jitter_def
            two_to_the_def uniform_def py_min_def float_limit_def always_failing_def
            three_retries_def default_options_def)
  qed
  have h5: "\<forall>i. i < nat (max_retries three_retries) \<and>
              \<not> is_transient ((\<lambda>i. Exception ''boom'') i) \<longrightarrow>
           (\<exists>d s. calculate_delay (int i + 1) three_retries (jitter_draw (always_failing i)) = Inr d \<and>
                  to_float d = Inr s)"
    using d by (auto simp: three_retries_def default_options_def)
  have h6: "components (rm_health_check (manager_with new_breaker)) = []"
    by (simp add: manager_with_def no_health_def)
  have h7: "open_error (attempt_io (always_failing (nat (max_retries three_retries)))) = None"
    and h8: "write_error (attempt_io (always_failing (nat (max_retries three_retries)))) = None"
    by (simp_all add: always_failing_def io_ok_def)
  have e: "security (always_failing 2) = None \<and>
           outcome (always_failing 2) = Inl (Exception ''boom'')"
    by (simp add: always_failing_def)
  have m: "max_retries three_retries = 3"
    by (simp add: three_retries_def default_options_def)
  have sec: "\<forall>i. i < nat (max_retries three_retries) \<longrightarrow> security (always_failing i) = None"
    by (simp add: always_failing_def)
  have r: "fst (retry always_failing ''op'' three_retries (manager_with new_breaker))
             = Inl (RetryError (Max_retries_reached 3) (Some (Exception ''boom'')) 3) \<and>
           invocations (snd (retry always_failing ''op'' three_retries (manager_with new_breaker)))
             = invocations (manager_with new_breaker) + 3"
    using retry_exhaustion [OF h1 h2 h3 h4 h5 h6 h7 h8, of "''op''"] sec
    by (simp add: m)
  have "invocations (manager_with new_breaker) = 0"
    by (simp add: manager_with_def)
  with r have r': "fst (retry always_failing ''op'' three_retries (manager_with new_breaker))
             = Inl (RetryError (Max_retries_reached 3) (Some (Exception ''boom'')) 3) \<and>
           invocations (snd (retry always_failing ''op'' three_retries (manager_with new_breaker))) = 3"
    by simp
  have d2: "calculate_delay 3 three_retries (jitter_draw (always_failing 2)) = Inr (PyFloat 20) \<and>
            to_float (PyFloat 20) = Inr 20"
    using d [of 2] by simp
  have io3: "open_error (attempt_io (always_failing 3)) = None \<and>
             write_error (attempt_io (always_failing 3)) = None"
    by (simp add: always_failing_def io_ok_def)
  show ?thesis
    using h1 h2 h3 h6 e d2 io3 r' by blast
qed

text \<open>
  Claim C4, evaluated on the code. The breaker is open and \<^verbatim>\<open>can_request\<close> answers false
  at the start of the first iteration. The call does not fail at once with the
  circuit-open error: the handler for \<^verbatim>\<open>Exception\<close> of the same loop catches it, records
  one more failure with the breaker, and sleeps the backoff delay; after three such
  iterations and two sleeps, of 5 and of 10 seconds, \<^verbatim>\<open>retry\<close> raises the exhaustion
  error, with the circuit-open error only as its \<^verbatim>\<open>last_error\<close>. The operation is never
  invoked.
\<close>

theorem retry_swallows_circuit_open:
  "fst (can_request (check_time (always_failing 0)) open_breaker) = False \<and>
   fst (retry always_failing ''op'' three_retries (manager_with open_breaker))
     = Inl (RetryError (Max_retries_reached 3)
              (Some (RetryError Circuit_breaker_is_open
                       (Some (Exception ''Circuit breaker open'')) 2)) 3) \<and>
   sleeps (snd (retry always_failing ''op'' three_retries (manager_with open_breaker))) = [5, 10] \<and>
   invocations (snd (retry always_failing ''op'' three_retries (manager_with open_breaker))) = 0 \<and>
   failures (circuit_breaker
     (snd (retry always_failing ''op'' three_retries (manager_with open_breaker)))) = 8"
  by (simp add: retry_unfold scenario_defs)

section \<open>Properties of the prioritization entry point\<close>

text \<open>
  Claim C8, evaluated on the code. \<^verbatim>\<open>apply_security_measures\<close> raises inside the \<^verbatim>\<open>try\<close>
  block; the handler calls \<^verbatim>\<open>handle_prioritization_error\<close>, which looks up
  \<^verbatim>\<open>handle_error\<close> on the retry manager. \<^verbatim>\<open>RetryManager\<close> has no such attribute, so an
  \<^verbatim>\<open>AttributeError\<close> leaves the entry point instead of the empty list, and the health
  monitor has recorded nothing for \<^verbatim>\<open>prioritization\<close>.
\<close>

theorem prioritization_error_reaches_caller:
  "security_measures blocked_env = Some (Exception ''blocked'') \<and>
   retry_manager_getattr ''handle_error'' = Inl (AttributeError ''handle_error'') \<and>
   fst (prioritize_slots_for_slot_checker blocked_env
          [SlotObject schengen_june_1, SlotObject nacional_june_5] new_priority_manager)
     = Inl (AttributeError ''handle_error'') \<and>
   error_counts (pm_health_check (snd (prioritize_slots_for_slot_checker blocked_env
          [SlotObject schengen_june_1, SlotObject nacional_june_5] new_priority_manager)))
     ''prioritization'' = None"
  by (simp add: prioritize_slots_for_slot_checker_def prioritization_failed_def
        handle_prioritization_error_def retry_manager_getattr_def RetryManager_attributes_def
        blocked_env_def new_priority_manager_def no_health_def)

section \<open>Properties of the component probes\<close>

lemma map_of_dict_set: "map_of (dict_set k v al) = (map_of al)(k \<mapsto> v)"
  by (induction al) (auto simp: fun_eq_iff)

lemma check_component_other:
  assumes "c \<noteq> c'"
  shows "map_of (components (check_component c' p hc)) c = map_of (components hc) c \<and>
         error_counts (check_component c' p hc) c = error_counts hc c"
  using assms
  by (cases p) (simp_all add: handle_component_error_def map_of_dict_set split: prod.split)

lemma check_components_other:
  assumes "c \<notin> fst ` set probes"
  shows "map_of (components (check_components probes hc)) c = map_of (components hc) c \<and>
         error_counts (check_components probes hc) c = error_counts hc c"
  using assms
proof (induction probes arbitrary: hc)
  case Nil
  show ?case by simp
next
  case (Cons q probes)
  obtain c' p where q: "q = (c', p)" by (cases q)
  with Cons.prems have "c \<noteq> c'" and "c \<notin> fst ` set probes" by auto
  then show ?case
    using Cons.IH [of "check_component c' p hc"] q by (simp add: check_component_other)
qed

lemma check_component_same:
  assumes "error_counts hc' c = error_counts hc c"
  shows "map_of (components (check_component c p hc')) c
           = map_of (components (check_component c p hc)) c \<and>
         error_counts (check_component c p hc') c = error_counts (check_component c p hc) c"
  using assms
  by (cases p)
     (simp_all add: handle_component_error_def error_count_get_def map_of_dict_set
        split: prod.split)

lemma check_components_at:
  assumes "distinct (map fst probes)" and "(c, p) \<in> set probes"
  shows "map_of (components (check_components probes hc)) c
           = map_of (components (check_component c p hc)) c \<and>
         error_counts (check_components probes hc) c = error_counts (check_component c p hc) c"
  using assms
proof (induction probes arbitrary: hc)
  case Nil
  then show ?case by simp
next
  case (Cons q probes)
  obtain c' p' where q: "q = (c', p')" by (cases q)
  show ?case
  proof (cases "(c, p) = q")
    case True
    then have "fst q = c" by auto
    then have "c \<notin> fst ` set probes"
      using Cons.prems(1) by simp
    then show ?thesis
      using True q check_components_other [of c probes "check_component c p hc"] by simp
  next
    case False
    then have mem: "(c, p) \<in> set probes"
      using Cons.prems(2) by simp
    then have "c \<in> fst ` set probes" by force
    moreover have "c' \<notin> fst ` set probes"
      using Cons.prems(1) q by simp
    ultimately have ne: "c \<noteq> c'" by blast
    have "distinct (map fst probes)" using Cons.prems(1) by simp
    then show ?thesis
      using Cons.IH [OF _ mem, of "check_component c' p' hc"] q ne
        check_component_same [of "check_component c' p' hc" c hc p]
      by (simp add: check_component_other)
  qed
qed

text \<open>
  Claim C9. Let the configured components have distinct names and let \<open>p\<close> be what the
  probe of \<open>component\<close> does. After \<^verbatim>\<open>check_components\<close>: if the probe answered 200, the
  component is Healthy and its error count is 0; if it answered another status, the
  component is Degraded and its error count is one more than it was before the call (1
  when the component had no count); if it timed out or raised, the component is
  Critical, the error text is recorded (\<^verbatim>\<open>"Timeout"\<close> for a timeout) and its error count
  is one more than it was before the call.
\<close>

theorem check_components_sets_status:
  assumes "distinct (map fst probes)" and "(component, p) \<in> set probes"
  shows "(\<forall>code rt checked. p = Response code rt checked \<and> code = 200 \<longrightarrow>
            map_of (components (check_components probes hc)) component
              = Some \<lparr>status = HEALTHY, response_time = rt, last_checked = checked, error = None\<rparr> \<and>
            error_counts (check_components probes hc) component = Some 0) \<and>
         (\<forall>code rt checked. p = Response code rt checked \<and> code \<noteq> 200 \<longrightarrow>
            map_of (components (check_components probes hc)) component
              = Some \<lparr>status = DEGRADED, response_time = rt, last_checked = checked, error = None\<rparr> \<and>
            error_counts (check_components probes hc) component
              = Some (case error_counts hc component of None \<Rightarrow> 1 | Some k \<Rightarrow> k + 1)) \<and>
         (\<forall>checked. p = ProbeTimeout checked \<longrightarrow>
            map_of (components (check_components probes hc)) component
              = Some \<lparr>status = CRITICAL, response_time = - 1, last_checked = checked,
                      error = Some ''Timeout''\<rparr> \<and>
            error_counts (check_components probes hc) component
              = Some (case error_counts hc component of None \<Rightarrow> 1 | Some k \<Rightarrow> k + 1)) \<and>
         (\<forall>err checked. p = ProbeException err checked \<longrightarrow>
            map_of (components (check_components probes hc)) component
              = Some \<lparr>status = CRITICAL, response_time = - 1, last_checked = checked,
                      error = Some err\<rparr> \<and>
            error_counts (check_components probes hc) component
              = Some (case error_counts hc component of None \<Rightarrow> 1 | Some k \<Rightarrow> k + 1))"
  using check_components_at [OF assms, of hc]
  by (cases p)
     (simp_all add: handle_component_error_def error_count_get_def map_of_dict_set
        split: prod.split option.split)

theorem check_components_sets_status_witness:
  "distinct (map fst three_probes) \<and>
   (''status'', Response 503 (1/2) ''2025-06-01T00:00:01'') \<in> set three_probes \<and>
   (503::int) \<noteq> 200 \<and>
   error_counts health_two_errors ''status'' = Some 2 \<and>
   map_of (components (check_components three_probes health_two_errors)) ''status''
     = Some \<lparr>status = DEGRADED, response_time = 1/2, last_checked = ''2025-06-01T00:00:01'',
             error = None\<rparr> \<and>
   error_counts (check_components three_probes health_two_errors) ''status'' = Some 3"
proof -
  have d: "distinct (map fst three_probes)"
    by (simp add: three_probes_def)
  have m: "(''status'', Response 503 (1/2) ''2025-06-01T00:00:01'') \<in> set three_probes"
    by (simp add: three_probes_def)
  have z: "error_counts health_two_errors ''status'' = Some 2"
    by (simp add: health_two_errors_def)
  have "map_of (components (check_components three_probes health_two_errors)) ''status''
          = Some \<lparr>status = DEGRADED, response_time = 1/2,
                  last_checked = ''2025-06-01T00:00:01'', error = None\<rparr> \<and>
        error_counts (check_components three_probes health_two_errors) ''status''
          = Some (case error_counts health_two_errors ''status'' of
                    None \<Rightarrow> 1 | Some k \<Rightarrow> k + 1)"
    by (rule check_components_sets_status [OF d m, of health_two_errors, THEN conjunct2,
          THEN conjunct1, rule_format, of 503 "1/2" "''2025-06-01T00:00:01''"]) simp
  then show ?thesis
    using d m z by simp
qed

end
